theory Spec2Isabelle
  imports
    Complex_Main
    "HOL-Library.FSet"
    "HOL-Library.Finite_Map"
    "HOL-Library.Char_ord"
    "HOL-Library.List_Lexorder"
begin

text \<open>
  A model of the MCP subfinder server: the enumeration orchestrator \<open>RunEnumeration\<close>,
  which drives the subfinder library through retries, an optional recursive pass and a
  fallback, and the JSON-RPC dispatcher (\<open>HandleInitialize\<close>, \<open>HandleToolsList\<close>,
  \<open>HandleToolsCall\<close>, \<open>ProcessSingleRequest\<close> and the HTTP handler). The subfinder library,
  \<open>jsoniter.Unmarshal\<close> and \<open>strings.EqualFold\<close> are parameters of the model; the
  theorems hold for every choice of them.
\<close>

section \<open>The enumeration orchestrator (internal/subfinder/wrapper.go)\<close>

text \<open>
  Strings are byte lists. With \<open>Char_ord\<close> and \<open>List_Lexorder\<close> the order on \<open>string\<close> is
  the bytewise lexicographic order, which is the order of Go's \<open>sort.Strings\<close>.
\<close>

subsection \<open>Errors\<close>

text \<open>
  The error values the orchestrator handles: the two errors of the \<open>context\<close> package, an
  error of the subfinder library (known only by its message), and \<open>fmt.Errorf(prefix + ": %w", e)\<close>,
  which wraps an error behind a prefix.
\<close>

datatype error =
    Canceled
  | DeadlineExceeded
  | LibraryError string
  | Wrapped string error

fun error_text :: "error \<Rightarrow> string" where
  "error_text Canceled = ''context canceled''"
| "error_text DeadlineExceeded = ''context deadline exceeded''"
| "error_text (LibraryError m) = m"
| "error_text (Wrapped p e) = p @ '': '' @ error_text e"

text \<open>The \<open>%d\<close> verb of \<open>fmt\<close> on a non-negative integer.\<close>

fun string_of_nat :: "nat \<Rightarrow> string" where
  "string_of_nat n =
     (if n < 10 then [char_of (48 + n)]
      else string_of_nat (n div 10) @ [char_of (48 + n mod 10)])"

declare string_of_nat.simps [simp del]

subsection \<open>Machine arithmetic\<close>

text \<open>
  Go's \<open>int\<close> is modelled as \<open>int\<close>; the only arithmetic the orchestrator does on it is a
  comparison with a constant and a division by 2, which cannot overflow. A
  \<open>time.Duration\<close> is a signed 64-bit count of nanoseconds, and
  \<open>time.Duration(n) * time.Second\<close> wraps.
\<close>

definition int64 :: "int \<Rightarrow> int" where
  "int64 x = (x + 2 ^ 63) mod 2 ^ 64 - 2 ^ 63"

definition Seconds :: "int \<Rightarrow> int" where
  "Seconds n = int64 (n * 1000000000)"

text \<open>Go's integer division truncates towards zero.\<close>

definition quot :: "int \<Rightarrow> int \<Rightarrow> int" where
  "quot a b = (if (a < 0) = (b < 0) then \<bar>a\<bar> div \<bar>b\<bar> else - (\<bar>a\<bar> div \<bar>b\<bar>))"

subsection \<open>Contexts\<close>

text \<open>
  What \<open>RunEnumeration\<close> observes of the context it is given: whether \<open>ctx.Deadline()\<close>
  reports a deadline, whether \<open>ctx.Done()\<close> is closed when it is polled after the \<open>k\<close>-th
  attempt of the retry loop, and the value of \<open>ctx.Err()\<close> once it is done. When the given
  context has no deadline the loop polls the context derived from it at line 74; \<open>Done\<close>
  describes the context that is polled.
\<close>

record "context" =
  HasDeadline :: bool
  Done :: "nat \<Rightarrow> bool"
  Err :: error

text \<open>
  How a context handed to the provider was obtained: the background context, the caller's
  context, or \<open>context.WithTimeout(parent, d)\<close>. Each call of \<open>WithTimeout\<close> makes a new
  context; the last argument tells the calls apart (0 for the one at line 74, \<open>i + 1\<close> for
  the one of the \<open>i\<close>-th iteration at line 198).
\<close>

datatype ctx_tree =
    Background
  | Caller
  | WithTimeout ctx_tree int nat

fun ancestors :: "ctx_tree \<Rightarrow> ctx_tree list" where
  "ancestors Background = []"
| "ancestors Caller = []"
| "ancestors (WithTimeout p d k) = p # ancestors p"

text \<open>
  The propagation rule of the \<open>context\<close> package: cancelling a context (or its deadline
  passing) closes \<open>Done\<close> of that context and of every context derived from it, and of no
  other. The background context is never cancelled.
\<close>

definition cancels :: "ctx_tree \<Rightarrow> ctx_tree \<Rightarrow> bool" where
  "cancels p c = (p \<noteq> Background \<and> (p = c \<or> p \<in> set (ancestors c)))"

subsection \<open>The provider\<close>

text \<open>\<open>map[string]map[string]struct{}\<close>: discovered subdomain to the set of its sources.\<close>

type_synonym result_map = "(string, string fset) fmap"

record SubfinderConfig =
  ProviderConfigPath :: string
  Timeout :: int
  MaxDepth :: int
  SourcesFilter :: string
  ExcludeSourcesFilter :: string
  Recursive :: bool

text \<open>
  The fields of \<open>runner.Options\<close> that \<open>RunEnumeration\<close> sets. \<open>opt_Sources\<close> and
  \<open>opt_ExcludeSources\<close> hold the filter string whose comma-separated, space-trimmed parts
  the code passes to \<open>goflags.StringSlice.Set\<close> (the empty string: left unset).
\<close>

record Options =
  opt_Silent :: bool
  opt_RemoveWildcard :: bool
  opt_Timeout :: int
  opt_MaxEnumerationTime :: int
  opt_Threads :: int
  opt_All :: bool
  opt_CaptureSources :: bool
  opt_ProviderConfig :: string
  opt_Verbose :: bool
  opt_Sources :: string
  opt_ExcludeSources :: string

text \<open>
  The code outside this repository that the orchestrator calls:
  \<^item> \<open>NewRunner opts\<close>: \<open>runner.NewRunner\<close>; \<open>None\<close> when a runner is returned;
  \<^item> \<open>Enumerate opts ctx domain k\<close>: what \<open>EnumerateSingleDomainWithCtx\<close> of the runner made
    from \<open>opts\<close> returns on \<open>ctx\<close> and \<open>domain\<close>; \<open>k\<close> is the attempt number (1, 2, 3) in the
    retry loop and the index (0, 1, ...) in the recursive loop;
  \<^item> \<open>EqualFold\<close>: \<open>strings.EqualFold\<close>.
  An \<open>event\<close> is a call of the provider or a pause (\<open>time.Sleep\<close>, in seconds).
\<close>

datatype event =
    EnumerateCall ctx_tree Options string
  | Sleep int

record provider =
  NewRunner :: "Options \<Rightarrow> error option"
  Enumerate :: "Options \<Rightarrow> ctx_tree \<Rightarrow> string \<Rightarrow> nat \<Rightarrow> result_map \<times> error option"
  EqualFold :: "string \<Rightarrow> string \<Rightarrow> bool"

subsection \<open>RunEnumeration\<close>

text \<open>Lines 28--60: the timeout default and the runner options.\<close>

definition default_timeout :: "SubfinderConfig \<Rightarrow> SubfinderConfig" where
  "default_timeout config = (if Timeout config \<le> 0 then config\<lparr>Timeout := 120\<rparr> else config)"

definition runner_options :: "SubfinderConfig \<Rightarrow> Options" where
  "runner_options config =
     \<lparr> opt_Silent = False,
       opt_RemoveWildcard = True,
       opt_Timeout = Timeout config,
       opt_MaxEnumerationTime = Timeout config,
       opt_Threads = 40,
       opt_All = (SourcesFilter config = []),
       opt_CaptureSources = True,
       opt_ProviderConfig = ProviderConfigPath config,
       opt_Verbose = True,
       opt_Sources = SourcesFilter config,
       opt_ExcludeSources = ExcludeSourcesFilter config \<rparr>"

text \<open>Lines 72--76: a context without a deadline gets one.\<close>

definition primary_ctx :: "context \<Rightarrow> SubfinderConfig \<Rightarrow> ctx_tree" where
  "primary_ctx ctx config =
     (if HasDeadline ctx then Caller else WithTimeout Caller (Seconds (Timeout config)) 0)"

text \<open>
  Lines 80--128: the retry loop. The state is \<open>(resultMap, enumErr, trace)\<close>; the trace
  records the calls of the provider and the pauses, in order. The \<open>break\<close> at line 109 leaves
  the loop. The \<open>break\<close> at line 118 is inside the \<open>select\<close> statement, and in Go it leaves the
  \<open>select\<close>, not the \<open>for\<close>: the loop goes on with the next attempt.
\<close>

definition maxRetries :: nat where
  "maxRetries = 3"

function retry_loop ::
  "provider \<Rightarrow> context \<Rightarrow> ctx_tree \<Rightarrow> Options \<Rightarrow> string \<Rightarrow> nat \<Rightarrow>
     result_map \<times> error option \<times> event list \<Rightarrow> result_map \<times> error option \<times> event list"
where
  "retry_loop p ctx c opts domain attempt (resultMap0, enumErr0, tr) =
     (if attempt \<le> maxRetries then
        (let (resultMap, enumErr) = Enumerate p opts c domain attempt;
             tr1 = tr @ [EnumerateCall c opts domain]
         in if enumErr = None \<and> fmdom resultMap \<noteq> {||} then (resultMap, enumErr, tr1)
            else if Done ctx attempt then
              retry_loop p ctx c opts domain (attempt + 1)
                (resultMap, (if enumErr = None then Some (Err ctx) else enumErr), tr1)
            else if attempt < maxRetries then
              retry_loop p ctx c opts domain (attempt + 1) (resultMap, enumErr, tr1 @ [Sleep 2])
            else
              retry_loop p ctx c opts domain (attempt + 1) (resultMap, enumErr, tr1))
      else (resultMap0, enumErr0, tr))"
  by pat_completeness auto
termination
  by (relation "measure (\<lambda>(p, ctx, c, opts, domain, attempt, st). Suc maxRetries - attempt)") auto

declare retry_loop.simps [simp del]

text \<open>
  Lines 134--142: the keys of the result map other than the queried domain, sorted. The
  order in which Go ranges over the map does not matter, since the list is sorted.
\<close>

definition first_pass :: "provider \<Rightarrow> string \<Rightarrow> result_map \<Rightarrow> string list" where
  "first_pass p domain resultMap =
     sorted_list_of_fset (ffilter (\<lambda>subdomain. \<not> EqualFold p subdomain domain) (fmdom resultMap))"

text \<open>
  Lines 191--224: the recursive loop over the frontier, with the loop index \<open>i\<close>. The state is
  \<open>(allSubdomains, trace)\<close>. A probe that fails is skipped.
\<close>

definition maxSubdomainsToProcess :: nat where
  "maxSubdomainsToProcess = 10"

definition recursive_ctx :: "int \<Rightarrow> nat \<Rightarrow> ctx_tree" where
  "recursive_ctx recursiveTimeout i = WithTimeout Background (Seconds recursiveTimeout) (Suc i)"

fun probe_loop ::
  "provider \<Rightarrow> Options \<Rightarrow> int \<Rightarrow> nat \<Rightarrow> string list \<Rightarrow>
     string fset \<times> event list \<Rightarrow> string fset \<times> event list"
where
  "probe_loop p ropts rt i [] st = st"
| "probe_loop p ropts rt i (subdomain # rest) (allSubdomains, tr) =
     (if i \<ge> maxSubdomainsToProcess then (allSubdomains, tr)
      else
        (let recursiveCtx = recursive_ctx rt i;
             (recResultMap, recErr) = Enumerate p ropts recursiveCtx subdomain i;
             tr1 = tr @ [EnumerateCall recursiveCtx ropts subdomain]
         in case recErr of
              Some e \<Rightarrow> probe_loop p ropts rt (Suc i) rest (allSubdomains, tr1)
            | None \<Rightarrow>
                probe_loop p ropts rt (Suc i) rest
                  (allSubdomains |\<union>|
                     ffilter (\<lambda>recSubdomain. \<not> EqualFold p recSubdomain subdomain)
                       (fmdom recResultMap),
                   tr1)))"

text \<open>
  Lines 156--232. At lines 164--165 the slice is rebuilt as its first ten entries followed
  by the rest (the \<open>append\<close> copies the tail onto itself).
\<close>

definition recursive_timeout :: "SubfinderConfig \<Rightarrow> int" where
  "recursive_timeout config =
     (let recursiveTimeout = quot (Timeout config) 2
      in if recursiveTimeout < 30 then 30 else recursiveTimeout)"

definition recursive_options :: "SubfinderConfig \<Rightarrow> Options" where
  "recursive_options config =
     (runner_options config)
       \<lparr> opt_Timeout := recursive_timeout config,
         opt_MaxEnumerationTime := recursive_timeout config \<rparr>"

definition recursive_pass ::
  "provider \<Rightarrow> SubfinderConfig \<Rightarrow> string list \<Rightarrow> string list \<times> event list" where
  "recursive_pass p config subdomains0 =
     (let subdomains =
            (if length subdomains0 > maxSubdomainsToProcess
             then take maxSubdomainsToProcess subdomains0 @ drop maxSubdomainsToProcess subdomains0
             else subdomains0);
          allSubdomains = fset_of_list subdomains;
          (allSubdomains', tr) =
            (case NewRunner p (recursive_options config) of
               Some e \<Rightarrow> (allSubdomains, [])
             | None \<Rightarrow>
                 probe_loop p (recursive_options config) (recursive_timeout config) 0 subdomains
                   (allSubdomains, []))
      in (sorted_list_of_fset allSubdomains', tr))"

text \<open>Lines 234--245: the suggestions returned when nothing was found.\<close>

definition commonPrefixes :: "string list" where
  "commonPrefixes =
     [''www'', ''mail'', ''api'', ''dev'', ''blog'', ''shop'', ''app'', ''support'', ''help'', ''portal'']"

definition suggestions :: "string \<Rightarrow> string list" where
  "suggestions domain = map (\<lambda>prefix. prefix @ ''.'' @ domain) commonPrefixes"

text \<open>
  The whole function: the result and the trace of provider calls and pauses. Log records
  and the statistics at lines 251--268 (diagnostics only) are left out. \<open>primary_pass\<close> is
  the retry loop from its initial state (\<open>resultMap\<close> and \<open>enumErr\<close> both nil).
\<close>

definition primary_pass ::
  "provider \<Rightarrow> context \<Rightarrow> string \<Rightarrow> SubfinderConfig \<Rightarrow> result_map \<times> error option \<times> event list" where
  "primary_pass p ctx domain config =
     retry_loop p ctx (primary_ctx ctx config) (runner_options config) domain 1 (fmempty, None, [])"

definition RunEnumeration ::
  "provider \<Rightarrow> context \<Rightarrow> string \<Rightarrow> SubfinderConfig \<Rightarrow> (error + string list) \<times> event list" where
  "RunEnumeration p ctx domain config0 =
     (let config = default_timeout config0;
          runnerOpts = runner_options config
      in case NewRunner p runnerOpts of
           Some err \<Rightarrow> (Inl (Wrapped ''failed to create subfinder runner'' err), [])
         | None \<Rightarrow>
             (let (resultMap, enumErr, tr) = primary_pass p ctx domain config
              in case enumErr of
                   Some err \<Rightarrow>
                     (Inl (Wrapped (''enumeration error after '' @ string_of_nat maxRetries @ '' attempts'') err),
                      tr)
                 | None \<Rightarrow>
                     (let subdomains1 = first_pass p domain resultMap;
                          (subdomains2, tr2) =
                            (if Recursive config \<and> length subdomains1 > 0 \<and> MaxDepth config > 1
                             then recursive_pass p config subdomains1
                             else (subdomains1, []))
                      in (Inr (if length subdomains2 = 0 then suggestions domain else subdomains2),
                          tr @ tr2))))"

section \<open>The protocol dispatcher (package mcp and the HTTP handler of the main package)\<close>

subsection \<open>Data\<close>

text \<open>
  A decoded JSON value, as \<open>jsoniter\<close> stores it in an \<open>interface{}\<close>: \<open>nil\<close>, \<open>bool\<close>,
  \<open>float64\<close> (its exact rational value), \<open>string\<close>, \<open>[]interface{}\<close> and
  \<open>map[string]interface{}\<close>. Values the handlers build themselves (the input schema) use
  the same type.
\<close>

datatype jvalue =
    JNull
  | JBool bool
  | JNumber rat
  | JString string
  | JArray "jvalue list"
  | JObject "(string \<times> jvalue) list"

text \<open>\<open>ID\<close> is a pointer to the raw bytes of the id (\<open>None\<close>: nil), \<open>Params\<close> the raw bytes.\<close>

record Request =
  req_JSONRPC :: string
  req_ID :: "string option"
  req_Method :: string
  req_Params :: string

record RPCError =
  Code :: int
  Message :: string
  Data :: "jvalue option"

definition ParseErrorCode :: int where "ParseErrorCode = - 32700"
definition InvalidRequestCode :: int where "InvalidRequestCode = - 32600"
definition MethodNotFoundCode :: int where "MethodNotFoundCode = - 32601"
definition InvalidParamsCode :: int where "InvalidParamsCode = - 32602"
definition InternalErrorCode :: int where "InternalErrorCode = - 32603"

definition ErrParse :: RPCError where
  "ErrParse = \<lparr> Code = ParseErrorCode, Message = ''Parse error'', Data = None \<rparr>"
definition ErrInvalidRequest :: RPCError where
  "ErrInvalidRequest = \<lparr> Code = InvalidRequestCode, Message = ''Invalid Request'', Data = None \<rparr>"
definition ErrMethodNotFound :: RPCError where
  "ErrMethodNotFound = \<lparr> Code = MethodNotFoundCode, Message = ''Method not found'', Data = None \<rparr>"
definition ErrInvalidParams :: RPCError where
  "ErrInvalidParams = \<lparr> Code = InvalidParamsCode, Message = ''Invalid params'', Data = None \<rparr>"
definition ErrInternal :: RPCError where
  "ErrInternal = \<lparr> Code = InternalErrorCode, Message = ''Internal error'', Data = None \<rparr>"

definition SupportedProtocolVersion :: string where
  "SupportedProtocolVersion = ''0.3''"

record InitializeParams =
  ProtocolVersion :: string

record InitializeResult =
  init_Name :: string
  init_Version :: string
  init_ProtocolVersion :: string

record Tool =
  tool_Name :: string
  tool_Title :: string
  tool_Description :: string
  tool_InputSchema :: jvalue
  tool_SupportsBinary :: bool
  tool_RequiresAPIKeys :: bool

record ToolCallParams =
  call_Name :: string
  call_Arguments :: "string \<rightharpoonup> jvalue"
  call_Binary :: string

record ContentItem =
  ci_Type :: string
  ci_Text :: string

record ResourceItem =
  ri_Type :: string
  ri_MimeType :: string
  ri_URI :: string
  ri_Blob :: string

text \<open>The two kinds of value the handlers put into \<open>Content []interface{}\<close>.\<close>

datatype content = TextContent ContentItem | ResourceContent ResourceItem

record ToolCallResult =
  Content :: "content list"
  IsError :: bool

text \<open>The three kinds of value the handlers put into \<open>Result interface{}\<close>.\<close>

datatype result =
    ResultInitialize InitializeResult
  | ResultToolsList "Tool list"
  | ResultToolCall ToolCallResult

record Response =
  JSONRPC :: string
  ID :: "string option"
  Result :: "result option"
  Error :: "RPCError option"

text \<open>
  The four uses of \<open>jsoniter.Unmarshal\<close>, each from raw bytes into the type of its target;
  \<open>None\<close> when \<open>Unmarshal\<close> returns an error.
\<close>

record json_codec =
  UnmarshalRequest :: "string \<Rightarrow> Request option"
  UnmarshalBatch :: "string \<Rightarrow> Request list option"
  UnmarshalInitializeParams :: "string \<Rightarrow> InitializeParams option"
  UnmarshalToolCallParams :: "string \<Rightarrow> ToolCallParams option"

subsection \<open>Formatting helpers of the Go library\<close>

text \<open>\<open>strings.Join\<close>.\<close>

fun Join :: "string list \<Rightarrow> string \<Rightarrow> string" where
  "Join [] sep = []"
| "Join [x] sep = x"
| "Join (x # y # rest) sep = x @ sep @ Join (y # rest) sep"

text \<open>\<open>base64.StdEncoding.EncodeToString\<close>: three bytes become four characters, padded with \<open>=\<close>.\<close>

definition b64_char :: "nat \<Rightarrow> char" where
  "b64_char n =
     ''ABCDEFGHIJKLMNOPQRSTUVWXYZabcdefghijklmnopqrstuvwxyz0123456789+/'' ! (n mod 64)"

fun b64_encode :: "nat list \<Rightarrow> string" where
  "b64_encode [] = []"
| "b64_encode [a] = [b64_char (a div 4), b64_char ((a mod 4) * 16), CHR ''='', CHR ''='']"
| "b64_encode [a, b] =
     [b64_char (a div 4), b64_char ((a mod 4) * 16 + b div 16), b64_char ((b mod 16) * 4), CHR ''='']"
| "b64_encode (a # b # c # rest) =
     [b64_char (a div 4), b64_char ((a mod 4) * 16 + b div 16),
      b64_char ((b mod 16) * 4 + c div 64), b64_char (c mod 64)] @ b64_encode rest"

definition EncodeToString :: "string \<Rightarrow> string" where
  "EncodeToString bytes = b64_encode (map of_char bytes)"

text \<open>
  The conversion \<open>int(x)\<close> of a \<open>float64\<close>: the fraction is dropped. Outside the range of
  \<open>int\<close> the Go specification leaves the result to the implementation; the value given here
  is that of amd64.
\<close>

definition int_of_float64 :: "rat \<Rightarrow> int" where
  "int_of_float64 x =
     (if - (2 ^ 63) \<le> x \<and> x < 2 ^ 63 then (if 0 \<le> x then \<lfloor>x\<rfloor> else \<lceil>x\<rceil>) else - (2 ^ 63))"

subsection \<open>HandleInitialize\<close>

definition HandleInitialize :: "json_codec \<Rightarrow> Request \<Rightarrow> Response" where
  "HandleInitialize j req =
     (case UnmarshalInitializeParams j (req_Params req) of
        None \<Rightarrow> \<lparr> JSONRPC = ''2.0'', ID = req_ID req, Result = None, Error = Some ErrParse \<rparr>
      | Some params \<Rightarrow>
          if ProtocolVersion params \<noteq> SupportedProtocolVersion then
            \<lparr> JSONRPC = ''2.0'', ID = req_ID req, Result = None,
              Error = Some
                \<lparr> Code = InvalidParamsCode,
                  Message = ''Unsupported protocol version: '' @ ProtocolVersion params
                    @ ''. Server supports: '' @ SupportedProtocolVersion,
                  Data = None \<rparr> \<rparr>
          else
            \<lparr> JSONRPC = ''2.0'', ID = req_ID req,
              Result = Some (ResultInitialize
                \<lparr> init_Name = ''MCP Subfinder Server'',
                  init_Version = ''1.0.0'',
                  init_ProtocolVersion = SupportedProtocolVersion \<rparr>),
              Error = None \<rparr>)"

subsection \<open>HandleToolsList\<close>

definition subdomainTool :: Tool where
  "subdomainTool =
     \<lparr> tool_Name = ''enumerateSubdomains'',
       tool_Title = ''Enumerate Subdomains'',
       tool_Description = ''Discovers subdomains for a given domain using the subfinder tool'',
       tool_InputSchema = JObject
         [(''type'', JString ''object''),
          (''properties'', JObject
            [(''domain'', JObject
               [(''type'', JString ''string''),
                (''description'', JString ''The base domain to enumerate subdomains for (e.g., example.com)'')]),
             (''timeout'', JObject
               [(''type'', JString ''integer''),
                (''description'', JString ''Maximum time in seconds to run enumeration (default: 60)''),
                (''default'', JNumber 60)]),
             (''maxDepth'', JObject
               [(''type'', JString ''integer''),
                (''description'', JString ''Maximum depth to explore for subdomain enumeration (default: 1)''),
                (''default'', JNumber 1)]),
             (''sourcesFilter'', JObject
               [(''type'', JString ''string''),
                (''description'', JString ''Comma-separated list of sources to use (default: all sources)'')]),
             (''excludeSourcesFilter'', JObject
               [(''type'', JString ''string''),
                (''description'', JString ''Comma-separated list of sources to exclude'')]),
             (''recursive'', JObject
               [(''type'', JString ''boolean''),
                (''description'', JString ''Enable recursive subdomain discovery (default: false)''),
                (''default'', JBool False)])]),
          (''required'', JArray [JString ''domain''])],
       tool_SupportsBinary = False,
       tool_RequiresAPIKeys = True \<rparr>"

definition HandleToolsList :: "Request \<Rightarrow> Response" where
  "HandleToolsList req =
     \<lparr> JSONRPC = ''2.0'', ID = req_ID req,
       Result = Some (ResultToolsList [subdomainTool]), Error = None \<rparr>"

subsection \<open>HandleToolsCall\<close>

text \<open>
  Lines 147--202: the configuration, from the defaults and the optional arguments, one
  function for each of the five blocks, applied in the order of the source. An optional
  argument is used only when it has the expected type and, for the numbers and the
  strings, passes the test \<open>> 0\<close> or \<open>!= ""\<close>; otherwise the code logs a warning and the
  default stays.
\<close>

definition default_config :: "string \<Rightarrow> SubfinderConfig" where
  "default_config providerConfigPath =
     \<lparr> ProviderConfigPath = providerConfigPath, Timeout = 60, MaxDepth = 1,
       SourcesFilter = [], ExcludeSourcesFilter = [], Recursive = False \<rparr>"

definition extract_timeout :: "(string \<rightharpoonup> jvalue) \<Rightarrow> SubfinderConfig \<Rightarrow> SubfinderConfig" where
  "extract_timeout arguments config =
     (case arguments ''timeout'' of
        Some (JNumber timeout) \<Rightarrow>
          if timeout > 0 then config\<lparr>Timeout := int_of_float64 timeout\<rparr> else config
      | _ \<Rightarrow> config)"

definition extract_maxDepth :: "(string \<rightharpoonup> jvalue) \<Rightarrow> SubfinderConfig \<Rightarrow> SubfinderConfig" where
  "extract_maxDepth arguments config =
     (case arguments ''maxDepth'' of
        Some (JNumber maxDepth) \<Rightarrow>
          if maxDepth > 0 then config\<lparr>MaxDepth := int_of_float64 maxDepth\<rparr> else config
      | _ \<Rightarrow> config)"

definition extract_sourcesFilter :: "(string \<rightharpoonup> jvalue) \<Rightarrow> SubfinderConfig \<Rightarrow> SubfinderConfig" where
  "extract_sourcesFilter arguments config =
     (case arguments ''sourcesFilter'' of
        Some (JString sourcesFilter) \<Rightarrow>
          if sourcesFilter \<noteq> [] then config\<lparr>SourcesFilter := sourcesFilter\<rparr> else config
      | _ \<Rightarrow> config)"

definition extract_excludeSourcesFilter ::
  "(string \<rightharpoonup> jvalue) \<Rightarrow> SubfinderConfig \<Rightarrow> SubfinderConfig" where
  "extract_excludeSourcesFilter arguments config =
     (case arguments ''excludeSourcesFilter'' of
        Some (JString excludeSourcesFilter) \<Rightarrow>
          if excludeSourcesFilter \<noteq> []
          then config\<lparr>ExcludeSourcesFilter := excludeSourcesFilter\<rparr> else config
      | _ \<Rightarrow> config)"

definition extract_recursive :: "(string \<rightharpoonup> jvalue) \<Rightarrow> SubfinderConfig \<Rightarrow> SubfinderConfig" where
  "extract_recursive arguments config =
     (case arguments ''recursive'' of
        Some (JBool recursive) \<Rightarrow> config\<lparr>Recursive := recursive\<rparr>
      | _ \<Rightarrow> config)"

definition tool_config :: "string \<Rightarrow> (string \<rightharpoonup> jvalue) \<Rightarrow> SubfinderConfig" where
  "tool_config providerConfigPath arguments =
     extract_recursive arguments
       (extract_excludeSourcesFilter arguments
         (extract_sourcesFilter arguments
           (extract_maxDepth arguments
             (extract_timeout arguments (default_config providerConfigPath)))))"

text \<open>Lines 208--246: the tool result, from what \<open>RunEnumeration\<close> returned.\<close>

definition tool_result :: "string \<Rightarrow> error + string list \<Rightarrow> ToolCallResult" where
  "tool_result domain r =
     (case r of
        Inl err \<Rightarrow>
          \<lparr> Content =
              [TextContent
                 \<lparr> ci_Type = ''text'',
                   ci_Text = ''Subdomain enumeration failed: '' @ error_text err \<rparr>],
            IsError = True \<rparr>
      | Inr subdomains \<Rightarrow>
          (let resultText =
                 ''Found '' @ string_of_nat (length subdomains) @ '' subdomains for '' @ domain
                   @ [CHR '':'', CHR 0x0A, CHR 0x0A] @ Join subdomains [CHR 0x0A]
           in \<lparr> Content =
                  [TextContent
                     \<lparr> ci_Type = ''text'',
                       ci_Text = ''Successfully enumerated '' @ string_of_nat (length subdomains)
                         @ '' subdomains for '' @ domain \<rparr>,
                   ResourceContent
                     \<lparr> ri_Type = ''resource'', ri_MimeType = ''text/plain'', ri_URI = [],
                       ri_Blob = EncodeToString resultText \<rparr>],
                IsError = False \<rparr>))"

definition HandleToolsCall ::
  "json_codec \<Rightarrow> provider \<Rightarrow> context \<Rightarrow> Request \<Rightarrow> string \<Rightarrow> Response" where
  "HandleToolsCall j p ctx req providerConfigPath =
     (case UnmarshalToolCallParams j (req_Params req) of
        None \<Rightarrow> \<lparr> JSONRPC = ''2.0'', ID = req_ID req, Result = None, Error = Some ErrParse \<rparr>
      | Some params \<Rightarrow>
          if call_Name params \<noteq> ''enumerateSubdomains'' then
            \<lparr> JSONRPC = ''2.0'', ID = req_ID req, Result = None, Error = Some ErrMethodNotFound \<rparr>
          else
            (case call_Arguments params ''domain'' of
               None \<Rightarrow>
                 \<lparr> JSONRPC = ''2.0'', ID = req_ID req, Result = None, Error = Some ErrInvalidParams \<rparr>
             | Some (JString domain) \<Rightarrow>
                 if domain = [] then
                   \<lparr> JSONRPC = ''2.0'', ID = req_ID req, Result = None, Error = Some ErrInvalidParams \<rparr>
                 else
                   (let config = tool_config providerConfigPath (call_Arguments params);
                        (r, tr) = RunEnumeration p ctx domain config
                    in \<lparr> JSONRPC = ''2.0'', ID = req_ID req,
                         Result = Some (ResultToolCall (tool_result domain r)), Error = None \<rparr>)
             | Some _ \<Rightarrow>
                 \<lparr> JSONRPC = ''2.0'', ID = req_ID req, Result = None, Error = Some ErrInvalidParams \<rparr>))"

subsection \<open>ProcessSingleRequest\<close>

text \<open>\<open>Response{}\<close>, the zero value.\<close>

definition empty_Response :: Response where
  "empty_Response = \<lparr> JSONRPC = [], ID = None, Result = None, Error = None \<rparr>"

definition ProcessSingleRequest ::
  "json_codec \<Rightarrow> provider \<Rightarrow> context \<Rightarrow> Request \<Rightarrow> string \<Rightarrow> Response" where
  "ProcessSingleRequest j p ctx req0 providerConfigPath =
     (let req = (if req_JSONRPC req0 = [] then req0\<lparr>req_JSONRPC := ''2.0''\<rparr> else req0)
      in if req_Method req = ''initialize'' then HandleInitialize j req
         else if req_Method req = ''tools.list'' then HandleToolsList req
         else if req_Method req = ''tools.call'' then HandleToolsCall j p ctx req providerConfigPath
         else if req_ID req = None then empty_Response
         else \<lparr> JSONRPC = ''2.0'', ID = req_ID req, Result = None, Error = Some ErrMethodNotFound \<rparr>)"

subsection \<open>mcpHandler\<close>

text \<open>
  What the handler sends: \<open>http.Error\<close> with a status and a text, or \<open>writeResponse\<close> with
  status 200 and the JSON encoding of one response or of an array of responses.
\<close>

datatype reply_body = Single Response | Batch "Response list"

datatype http_reply = HttpError nat string | WriteResponse nat reply_body

text \<open>Lines 168--175: the loop over a batch; a response with neither id nor error is left out.\<close>

fun batch_loop ::
  "json_codec \<Rightarrow> provider \<Rightarrow> context \<Rightarrow> string \<Rightarrow> Request list \<Rightarrow> Response list" where
  "batch_loop j p ctx providerConfigPath [] = []"
| "batch_loop j p ctx providerConfigPath (req # rest) =
     (let resp = ProcessSingleRequest j p ctx req providerConfigPath
      in if ID resp \<noteq> None \<or> Error resp \<noteq> None
         then resp # batch_loop j p ctx providerConfigPath rest
         else batch_loop j p ctx providerConfigPath rest)"

text \<open>
  The handler, from the HTTP method, the \<open>Content-Type\<close> header and the body (\<open>None\<close> when
  reading it fails). \<open>rctx\<close> is the state of the context the handler derives from the request's
  context with \<open>serverTimeout\<close> (line 150); that context has a deadline.
\<close>

definition mcpHandler ::
  "json_codec \<Rightarrow> provider \<Rightarrow> context \<Rightarrow> string \<Rightarrow> string \<Rightarrow> string \<Rightarrow> string option \<Rightarrow> http_reply" where
  "mcpHandler j p rctx providerConfigPath http_method contentType read_body =
     (if http_method \<noteq> ''POST'' then HttpError 405 ''Method not allowed''
      else if contentType \<noteq> ''application/json''
      then HttpError 415 ''Content type must be application/json''
      else
        (case read_body of
           None \<Rightarrow> HttpError 400 ''Failed to read request''
         | Some body \<Rightarrow>
             (let ctx = rctx\<lparr>HasDeadline := True\<rparr>
              in if length body > 0 \<and> hd body = CHR ''[''
                 then
                   (case UnmarshalBatch j body of
                      None \<Rightarrow>
                        WriteResponse 200
                          (Batch [\<lparr> JSONRPC = ''2.0'', ID = None, Result = None, Error = Some ErrParse \<rparr>])
                    | Some batchRequest \<Rightarrow>
                        WriteResponse 200 (Batch (batch_loop j p ctx providerConfigPath batchRequest)))
                 else
                   (case UnmarshalRequest j body of
                      None \<Rightarrow>
                        WriteResponse 200
                          (Single \<lparr> JSONRPC = ''2.0'', ID = None, Result = None, Error = Some ErrParse \<rparr>)
                    | Some singleRequest \<Rightarrow>
                        WriteResponse 200
                          (Single (ProcessSingleRequest j p ctx singleRequest providerConfigPath))))))"

section \<open>Predicates used in the statements\<close>

text \<open>
  The specification's shape detection: the first byte of the payload that is not JSON
  white space is an opening bracket.
\<close>

definition is_space :: "char \<Rightarrow> bool" where
  "is_space c = (c = CHR '' '' \<or> c = CHR 0x09 \<or> c = CHR 0x0A \<or> c = CHR 0x0D)"

definition first_non_space_is_bracket :: "string \<Rightarrow> bool" where
  "first_non_space_is_bracket body =
     (case dropWhile is_space body of [] \<Rightarrow> False | c # rest \<Rightarrow> c = CHR ''['')"


text \<open>Text made of ASCII bytes only.\<close>

definition ascii_text :: "string \<Rightarrow> bool" where
  "ascii_text x = list_all (\<lambda>c. of_char c < (128 :: nat)) x"

text \<open>The event that the probe of the \<open>i\<close>-th frontier entry leaves in the trace.\<close>

definition probe_event :: "Options \<Rightarrow> int \<Rightarrow> nat \<times> string \<Rightarrow> event" where
  "probe_event ropts rt = (\<lambda>(i, subdomain). EnumerateCall (recursive_ctx rt i) ropts subdomain)"

section \<open>Sample collaborators\<close>

text \<open>
  Concrete collaborators on which the theorems below are exercised. \<open>ascii_EqualFold\<close> is
  \<open>strings.EqualFold\<close> on ASCII text. The provider answers by domain: a healthy domain with
  four entries (two of them differing in case only, one the domain itself), a subdomain
  whose probe reports the root domain, a domain with twelve hosts, a domain on which the
  library fails, and nothing for any other domain.
\<close>

definition ascii_lower :: "char \<Rightarrow> char" where
  "ascii_lower c =
     (if CHR ''A'' \<le> c \<and> c \<le> CHR ''Z'' then char_of (of_char c + (32 :: nat)) else c)"

definition ascii_EqualFold :: "string \<Rightarrow> string \<Rightarrow> bool" where
  "ascii_EqualFold s t = (map ascii_lower s = map ascii_lower t)"

definition example_hosts :: result_map where
  "example_hosts =
     fmap_of_list
       [(''www.example.com'', {|''crtsh''|}),
        (''api.example.com'', {|''crtsh'', ''hackertarget''|}),
        (''API.example.com'', {|''anubis''|}),
        (''example.com'', {|''crtsh''|})]"

definition www_hosts :: result_map where
  "www_hosts =
     fmap_of_list
       [(''example.com'', {|''crtsh''|}),
        (''cdn.www.example.com'', {|''crtsh''|})]"

definition big_hosts :: result_map where
  "big_hosts =
     fmap_of_list
       [(''h01.big.example'', {|''crtsh''|}), (''h02.big.example'', {|''crtsh''|}),
        (''h03.big.example'', {|''crtsh''|}), (''h04.big.example'', {|''crtsh''|}),
        (''h05.big.example'', {|''crtsh''|}), (''h06.big.example'', {|''crtsh''|}),
        (''h07.big.example'', {|''crtsh''|}), (''h08.big.example'', {|''crtsh''|}),
        (''h09.big.example'', {|''crtsh''|}), (''h10.big.example'', {|''crtsh''|}),
        (''h11.big.example'', {|''crtsh''|}), (''h12.big.example'', {|''crtsh''|})]"

definition sample_provider :: provider where
  "sample_provider =
     \<lparr> NewRunner = (\<lambda>opts. None),
       Enumerate = (\<lambda>opts c domain k.
         if domain = ''example.com'' then (example_hosts, None)
         else if domain = ''www.example.com'' then (www_hosts, None)
         else if domain = ''big.example'' then (big_hosts, None)
         else if domain = ''down.example'' then
           (fmempty, Some (LibraryError ''no sources available''))
         else (fmempty, None)),
       EqualFold = ascii_EqualFold \<rparr>"

definition live_ctx :: "context" where
  "live_ctx = \<lparr> HasDeadline = True, Done = (\<lambda>k. False), Err = Canceled \<rparr>"

definition cancelled_ctx :: "context" where
  "cancelled_ctx = \<lparr> HasDeadline = True, Done = (\<lambda>k. True), Err = Canceled \<rparr>"

definition flat_config :: SubfinderConfig where
  "flat_config =
     \<lparr> ProviderConfigPath = ''provider-config.yaml'', Timeout = 60, MaxDepth = 1,
       SourcesFilter = [], ExcludeSourcesFilter = [], Recursive = False \<rparr>"

definition deep_config :: SubfinderConfig where
  "deep_config = flat_config\<lparr>MaxDepth := 2, Recursive := True\<rparr>"

text \<open>Raw JSON texts, and a decoder that knows exactly these.\<close>

definition params_v03 :: string where
  \<open>params_v03 = ''{"protocolVersion":"0.3"}''\<close>

definition params_v02 :: string where
  \<open>params_v02 = ''{"protocolVersion":"0.2"}''\<close>

definition params_string :: string where
  \<open>params_string = ''"0.3"''\<close>

definition params_array :: string where
  \<open>params_array = ''["enumerateSubdomains"]''\<close>

definition params_down :: string where
  \<open>params_down = ''{"name":"enumerateSubdomains","arguments":{"domain":"down.example"}}''\<close>

definition params_timeout0 :: string where
  \<open>params_timeout0 = ''{"name":"enumerateSubdomains","arguments":{"domain":"example.com","timeout":0}}''\<close>

definition params_plain :: string where
  \<open>params_plain = ''{"name":"enumerateSubdomains","arguments":{"domain":"example.com"}}''\<close>

definition body_list_notification :: string where
  \<open>body_list_notification = ''{"jsonrpc":"2.0","method":"tools.list"}''\<close>

definition body_batch :: string where
  \<open>body_batch = ''[{"jsonrpc":"2.0","method":"initialize","params":{"protocolVersion":"0.2"}},{"jsonrpc":"2.0","method":"ping"},{"jsonrpc":"2.0","id":1,"method":"tools.list"}]''\<close>

definition body_spaced_batch :: string where
  \<open>body_spaced_batch = '' [{"jsonrpc":"2.0","id":1,"method":"tools.list"}]''\<close>

definition sample_codec :: json_codec where
  "sample_codec =
     \<lparr> UnmarshalRequest = map_of
         [(body_list_notification,
           \<lparr> req_JSONRPC = ''2.0'', req_ID = None, req_Method = ''tools.list'', req_Params = [] \<rparr>)],
       UnmarshalBatch = map_of
         [(body_batch,
           [\<lparr> req_JSONRPC = ''2.0'', req_ID = None, req_Method = ''initialize'', req_Params = params_v02 \<rparr>,
            \<lparr> req_JSONRPC = ''2.0'', req_ID = None, req_Method = ''ping'', req_Params = [] \<rparr>,
            \<lparr> req_JSONRPC = ''2.0'', req_ID = Some ''1'', req_Method = ''tools.list'', req_Params = [] \<rparr>])],
       UnmarshalInitializeParams = map_of
         [(params_v03, \<lparr> ProtocolVersion = ''0.3'' \<rparr>),
          (params_v02, \<lparr> ProtocolVersion = ''0.2'' \<rparr>)],
       UnmarshalToolCallParams = map_of
         [(params_down,
           \<lparr> call_Name = ''enumerateSubdomains'',
             call_Arguments = [''domain'' \<mapsto> JString ''down.example''],
             call_Binary = [] \<rparr>),
          (params_timeout0,
           \<lparr> call_Name = ''enumerateSubdomains'',
             call_Arguments = [''domain'' \<mapsto> JString ''example.com'', ''timeout'' \<mapsto> JNumber 0],
             call_Binary = [] \<rparr>),
          (params_plain,
           \<lparr> call_Name = ''enumerateSubdomains'',
             call_Arguments = [''domain'' \<mapsto> JString ''example.com''],
             call_Binary = [] \<rparr>)] \<rparr>"

section \<open>Verification\<close>

subsection \<open>The retry loop\<close>

lemma retry_loop_exit:
  "attempt > maxRetries \<Longrightarrow> retry_loop p ctx c opts domain attempt st = st"
  by (cases st) (simp add: retry_loop.simps)

lemma retry_loop_step:
  assumes "attempt \<le> maxRetries" and "Enumerate p opts c domain attempt = (resultMap, enumErr)"
  shows "retry_loop p ctx c opts domain attempt (resultMap0, enumErr0, tr) =
     (if enumErr = None \<and> fmdom resultMap \<noteq> {||}
      then (resultMap, enumErr, tr @ [EnumerateCall c opts domain])
      else if Done ctx attempt then
        retry_loop p ctx c opts domain (Suc attempt)
          (resultMap, (if enumErr = None then Some (Err ctx) else enumErr),
           tr @ [EnumerateCall c opts domain])
      else if attempt < maxRetries then
        retry_loop p ctx c opts domain (Suc attempt)
          (resultMap, enumErr, tr @ [EnumerateCall c opts domain, Sleep 2])
      else
        retry_loop p ctx c opts domain (Suc attempt)
          (resultMap, enumErr, tr @ [EnumerateCall c opts domain]))"
  using assms by (subst retry_loop.simps) (simp add: Let_def)

lemma retry_loop_empty:
  assumes "\<forall>k\<in>{1, 2, 3}. Enumerate p opts c domain k = (fmempty, None)"
      and "\<forall>k\<in>{1, 2, 3}. \<not> Done ctx k"
  shows "retry_loop p ctx c opts domain 1 (fmempty, None, []) =
           (fmempty, None,
            [EnumerateCall c opts domain, Sleep 2, EnumerateCall c opts domain, Sleep 2,
             EnumerateCall c opts domain])"
proof -
  have e1: "Enumerate p opts c domain 1 = (fmempty, None)" using assms(1) by simp
  have e2: "Enumerate p opts c domain (Suc 1) = (fmempty, None)"
    using assms(1) by (simp add: numeral_2_eq_2)
  have e3: "Enumerate p opts c domain (Suc (Suc 1)) = (fmempty, None)"
    using assms(1) by (simp add: numeral_3_eq_3)
  have d: "\<not> Done ctx 1" "\<not> Done ctx (Suc 1)" "\<not> Done ctx (Suc (Suc 1))"
    using assms(2) by (simp_all add: numeral_2_eq_2 numeral_3_eq_3)
  have "retry_loop p ctx c opts domain 1 (fmempty, None, []) =
        retry_loop p ctx c opts domain (Suc 1) (fmempty, None, [EnumerateCall c opts domain, Sleep 2])"
    using d by (subst retry_loop_step [OF _ e1]) (simp_all add: maxRetries_def)
  also have "\<dots> = retry_loop p ctx c opts domain (Suc (Suc 1))
      (fmempty, None, [EnumerateCall c opts domain, Sleep 2, EnumerateCall c opts domain, Sleep 2])"
    using d by (subst retry_loop_step [OF _ e2]) (simp_all add: maxRetries_def)
  also have "\<dots> = retry_loop p ctx c opts domain (Suc (Suc (Suc 1)))
      (fmempty, None, [EnumerateCall c opts domain, Sleep 2, EnumerateCall c opts domain, Sleep 2,
         EnumerateCall c opts domain])"
    using d by (subst retry_loop_step [OF _ e3]) (simp_all add: maxRetries_def)
  also have "\<dots> = (fmempty, None, [EnumerateCall c opts domain, Sleep 2,
         EnumerateCall c opts domain, Sleep 2, EnumerateCall c opts domain])"
    by (rule retry_loop_exit) (simp add: maxRetries_def)
  finally show ?thesis .
qed

text \<open>
  With a context that is done at every poll and attempts that all fail or come back empty,
  the loop still makes all three attempts, without pausing; the error is that of the last attempt.
\<close>

lemma retry_loop_cancelled:
  assumes "\<forall>k\<in>{1, 2, 3}. Done ctx k"
      and "\<forall>k\<in>{1, 2, 3}. snd (Enumerate p opts c domain k) \<noteq> None
             \<or> fmdom (fst (Enumerate p opts c domain k)) = {||}"
  shows "retry_loop p ctx c opts domain 1 (fmempty, None, []) =
           (fst (Enumerate p opts c domain 3),
            Some (case snd (Enumerate p opts c domain 3) of None \<Rightarrow> Err ctx | Some e \<Rightarrow> e),
            [EnumerateCall c opts domain, EnumerateCall c opts domain, EnumerateCall c opts domain])"
proof -
  obtain r1 x1 where e1: "Enumerate p opts c domain 1 = (r1, x1)" by force
  obtain r2 x2 where e2: "Enumerate p opts c domain (Suc 1) = (r2, x2)" by force
  obtain r3 x3 where e3: "Enumerate p opts c domain (Suc (Suc 1)) = (r3, x3)" by force
  have e3': "Enumerate p opts c domain 3 = (r3, x3)" using e3 by (simp add: numeral_3_eq_3)
  have e2': "Enumerate p opts c domain 2 = (r2, x2)" using e2 by (simp add: numeral_2_eq_2)
  have d: "Done ctx 1" "Done ctx (Suc 1)" "Done ctx (Suc (Suc 1))"
    using assms(1) by (simp_all add: numeral_2_eq_2 numeral_3_eq_3)
  have f1: "(x1 = None \<and> fmdom r1 \<noteq> {||}) = False" using assms(2) e1 by auto
  have f2: "(x2 = None \<and> fmdom r2 \<noteq> {||}) = False" using assms(2) e2' by auto
  have f3: "(x3 = None \<and> fmdom r3 \<noteq> {||}) = False" using assms(2) e3' by auto
  have "retry_loop p ctx c opts domain 1 (fmempty, None, []) =
        retry_loop p ctx c opts domain (Suc 1)
          (r1, (if x1 = None then Some (Err ctx) else x1), [EnumerateCall c opts domain])"
    using d by (subst retry_loop_step [OF _ e1]) (simp_all only: f1 if_False maxRetries_def, simp_all)
  also have "\<dots> = retry_loop p ctx c opts domain (Suc (Suc 1))
      (r2, (if x2 = None then Some (Err ctx) else x2),
       [EnumerateCall c opts domain, EnumerateCall c opts domain])"
    using d by (subst retry_loop_step [OF _ e2]) (simp_all only: f2 if_False maxRetries_def, simp_all)
  also have "\<dots> = retry_loop p ctx c opts domain (Suc (Suc (Suc 1)))
      (r3, (if x3 = None then Some (Err ctx) else x3),
       [EnumerateCall c opts domain, EnumerateCall c opts domain, EnumerateCall c opts domain])"
    using d by (subst retry_loop_step [OF _ e3]) (simp_all only: f3 if_False maxRetries_def, simp_all)
  also have "\<dots> = (r3, (if x3 = None then Some (Err ctx) else x3),
       [EnumerateCall c opts domain, EnumerateCall c opts domain, EnumerateCall c opts domain])"
    by (rule retry_loop_exit) (simp add: maxRetries_def)
  finally show ?thesis
    by (simp add: e3' split: option.splits)
qed

subsection \<open>The structure of RunEnumeration\<close>

lemma RunEnumeration_after_loop:
  assumes "NewRunner p (runner_options (default_timeout config)) = None"
      and "primary_pass p ctx domain (default_timeout config) = (resultMap, enumErr, tr)"
  shows "RunEnumeration p ctx domain config =
     (case enumErr of
        Some err \<Rightarrow>
          (Inl (Wrapped (''enumeration error after '' @ string_of_nat maxRetries @ '' attempts'') err), tr)
      | None \<Rightarrow>
          (let subdomains1 = first_pass p domain resultMap;
               (subdomains2, tr2) =
                 (if Recursive (default_timeout config) \<and> length subdomains1 > 0
                       \<and> MaxDepth (default_timeout config) > 1
                  then recursive_pass p (default_timeout config) subdomains1
                  else (subdomains1, []))
           in (Inr (if length subdomains2 = 0 then suggestions domain else subdomains2), tr @ tr2)))"
  using assms by (simp add: RunEnumeration_def Let_def)

lemma first_pass_empty: "first_pass p domain fmempty = []"
  by (simp add: first_pass_def sorted_list_of_fset.rep_eq)

lemma string_of_nat_maxRetries: "string_of_nat maxRetries = ''3''"
  by code_simp

subsection \<open>The recursive loop\<close>

lemma probe_loop_trace:
  "snd (probe_loop p ropts rt i xs (allSubdomains, tr)) =
     tr @ map (probe_event ropts rt) (enumerate i (take (maxSubdomainsToProcess - i) xs))"
proof (induction xs arbitrary: i allSubdomains tr)
  case Nil
  then show ?case by simp
next
  case (Cons x xs)
  show ?case
  proof (cases "i \<ge> maxSubdomainsToProcess")
    case True
    then show ?thesis by simp
  next
    case False
    then have t: "take (maxSubdomainsToProcess - i) (x # xs) = x # take (maxSubdomainsToProcess - Suc i) xs"
      by (simp add: take_Cons')
    show ?thesis
      using False
      by (simp add: t Cons.IH Let_def probe_event_def split: prod.splits option.splits)
  qed
qed

lemma probe_loop_mono:
  "allSubdomains |\<subseteq>| fst (probe_loop p ropts rt i xs (allSubdomains, tr))"
proof (induction xs arbitrary: i allSubdomains tr)
  case Nil
  then show ?case by simp
next
  case (Cons x xs)
  show ?case
  proof (cases "i \<ge> maxSubdomainsToProcess")
    case True
    then show ?thesis by simp
  next
    case False
    obtain r e where en: "Enumerate p ropts (recursive_ctx rt i) x i = (r, e)" by force
    show ?thesis
    proof (cases e)
      case None
      have "allSubdomains |\<subseteq>| allSubdomains |\<union>| ffilter (\<lambda>recSubdomain. \<not> EqualFold p recSubdomain x) (fmdom r)"
        by auto
      also have "\<dots> |\<subseteq>| fst (probe_loop p ropts rt (Suc i) xs
          (allSubdomains |\<union>| ffilter (\<lambda>recSubdomain. \<not> EqualFold p recSubdomain x) (fmdom r),
           tr @ [EnumerateCall (recursive_ctx rt i) ropts x]))"
        by (rule Cons.IH)
      finally show ?thesis using False en None by (simp add: Let_def)
    next
      case (Some a)
      then show ?thesis using False en Cons.IH by (simp add: Let_def)
    qed
  qed
qed

lemma sorted_list_of_fset_sorted: "sorted (sorted_list_of_fset S)"
  by (simp add: sorted_list_of_fset.rep_eq)

lemma sorted_list_of_fset_distinct: "distinct (sorted_list_of_fset S)"
  by (simp add: sorted_list_of_fset.rep_eq)

lemma recursive_pass_sorted: "sorted (fst (recursive_pass p config subdomains))"
  by (simp add: recursive_pass_def Let_def sorted_list_of_fset_sorted split: prod.splits)

lemma recursive_pass_distinct: "distinct (fst (recursive_pass p config subdomains))"
  by (simp add: recursive_pass_def Let_def sorted_list_of_fset_distinct split: prod.splits)

lemma recursive_pass_keeps: "set subdomains \<subseteq> set (fst (recursive_pass p config subdomains))"
proof -
  have "fset_of_list subdomains |\<subseteq>|
      fst (probe_loop p (recursive_options config) (recursive_timeout config) 0 subdomains
             (fset_of_list subdomains, []))"
    by (rule probe_loop_mono)
  then have "set subdomains \<subseteq> fset (fst (probe_loop p (recursive_options config)
      (recursive_timeout config) 0 subdomains (fset_of_list subdomains, [])))"
    by (metis fset_of_list.rep_eq less_eq_fset.rep_eq)
  then show ?thesis
    by (auto simp: recursive_pass_def Let_def fset_of_list.rep_eq split: prod.splits option.splits)
qed

lemma recursive_pass_trace:
  "snd (recursive_pass p config subdomains) =
     (case NewRunner p (recursive_options config) of
        Some e \<Rightarrow> []
      | None \<Rightarrow>
          map (probe_event (recursive_options config) (recursive_timeout config))
            (enumerate 0 (take maxSubdomainsToProcess subdomains)))"
proof -
  have "snd (probe_loop p (recursive_options config) (recursive_timeout config) 0 subdomains
      (fset_of_list subdomains, [])) = map (probe_event (recursive_options config) (recursive_timeout config))
            (enumerate 0 (take maxSubdomainsToProcess subdomains))"
    by (simp add: probe_loop_trace)
  then show ?thesis
    by (auto simp: recursive_pass_def Let_def split: prod.splits option.splits)
qed

lemma suggestions_distinct: "distinct (suggestions domain)"
  by (simp add: suggestions_def commonPrefixes_def)

lemma first_pass_sound: "s \<in> set (first_pass p domain resultMap) \<Longrightarrow> \<not> EqualFold p s domain"
  by (simp add: first_pass_def)

lemma probe_event_cases:
  assumes "e \<in> set (map (probe_event ropts rt) (enumerate n xs))"
  shows "\<exists>i s. e = EnumerateCall (recursive_ctx rt i) ropts s \<and> n \<le> i \<and> i < n + length xs
           \<and> s \<in> set xs"
  using assms
proof (induction xs arbitrary: n)
  case Nil
  then show ?case by simp
next
  case (Cons x xs)
  then consider "e = probe_event ropts rt (n, x)"
    | "e \<in> set (map (probe_event ropts rt) (enumerate (Suc n) xs))"
    by auto
  then show ?case
  proof cases
    case 1
    then show ?thesis by (auto simp: probe_event_def)
  next
    case 2
    from Cons.IH [OF this] show ?thesis by force
  qed
qed

subsection \<open>The dispatcher\<close>

lemma HandleToolsCall_ID: "ID (HandleToolsCall j p ctx req path) = req_ID req"
  by (simp add: HandleToolsCall_def Let_def split: option.split jvalue.split prod.split)

lemma ProcessSingleRequest_ID: "ID (ProcessSingleRequest j p ctx req path) = req_ID req"
  by (simp add: ProcessSingleRequest_def Let_def HandleInitialize_def HandleToolsList_def
      HandleToolsCall_ID empty_Response_def split: option.split)

lemma batch_loop_append:
  "batch_loop j p ctx path (xs @ ys) = batch_loop j p ctx path xs @ batch_loop j p ctx path ys"
  by (induction xs) (simp_all add: Let_def)






lemma mcpHandler_post:
  "mcpHandler j p rctx path ''POST'' ''application/json'' (Some body) =
     (if length body > 0 \<and> hd body = CHR ''[''
      then WriteResponse 200
             (Batch (case UnmarshalBatch j body of
                       None \<Rightarrow> [\<lparr> JSONRPC = ''2.0'', ID = None, Result = None, Error = Some ErrParse \<rparr>]
                     | Some batchRequest \<Rightarrow>
                         batch_loop j p (rctx\<lparr>HasDeadline := True\<rparr>) path batchRequest))
      else WriteResponse 200
             (Single (case UnmarshalRequest j body of
                        None \<Rightarrow> \<lparr> JSONRPC = ''2.0'', ID = None, Result = None, Error = Some ErrParse \<rparr>
                      | Some singleRequest \<Rightarrow>
                          ProcessSingleRequest j p (rctx\<lparr>HasDeadline := True\<rparr>) singleRequest path)))"
  by (simp add: mcpHandler_def Let_def split: option.split)

lemma notification_no_error:
  assumes "req_ID req = None"
      and "req_Method req \<noteq> ''initialize''" and "req_Method req \<noteq> ''tools.call''"
  shows "Error (ProcessSingleRequest j p ctx req path) = None"
  using assms
  by (simp add: ProcessSingleRequest_def Let_def HandleToolsList_def empty_Response_def)

subsection \<open>The suggestions and the queried domain\<close>

text \<open>
  \<open>strings.EqualFold\<close> compares its arguments rune by rune and accepts only when both are
  used up together; an ASCII byte is one rune. So it never equates a string with the same
  string behind a non-empty ASCII prefix. Under this property of the library no suggestion
  is equal to the queried domain.
\<close>

lemma suggestion_prefixes_ascii:
  "\<forall>x\<in>set (map (\<lambda>prefix. prefix @ ''.'') commonPrefixes). x \<noteq> [] \<and> ascii_text x"
  by (simp add: commonPrefixes_def ascii_text_def)

lemma suggestions_not_the_domain:
  assumes "\<forall>x d. x \<noteq> [] \<and> ascii_text x \<longrightarrow> \<not> EqualFold p (x @ d) d"
      and "s \<in> set (suggestions domain)"
  shows "\<not> EqualFold p s domain"
proof -
  from assms(2) obtain prefix where
    prefix: "prefix \<in> set commonPrefixes" and s: "s = (prefix @ ''.'') @ domain"
    by (auto simp: suggestions_def)
  from prefix have "prefix @ ''.'' \<in> set (map (\<lambda>prefix. prefix @ ''.'') commonPrefixes)"
    by simp
  with suggestion_prefixes_ascii have "prefix @ ''.'' \<noteq> [] \<and> ascii_text (prefix @ ''.'')"
    by blast
  with assms(1) show ?thesis
    unfolding s by blast
qed

lemma ascii_EqualFold_prefix:
  "\<forall>x d. x \<noteq> [] \<and> ascii_text x \<longrightarrow> \<not> ascii_EqualFold (x @ d) d"
proof (intro allI impI notI)
  fix x d :: string
  assume x: "x \<noteq> [] \<and> ascii_text x" and eq: "ascii_EqualFold (x @ d) d"
  from eq have "length (map ascii_lower (x @ d)) = length (map ascii_lower d)"
    by (simp only: ascii_EqualFold_def)
  with x show False by simp
qed

section \<open>The claims\<close>

text \<open>
  Claim C1. A \<open>tools.call\<close> request whose parameters decode, that names the tool and
  carries a non-empty string \<open>domain\<close>, and whose enumeration fails with an error \<open>err\<close>,
  gets a response without RPC error: the envelope echoes the id, and its result is a tool
  result with the error flag set and exactly one text item, \<open>Subdomain enumeration failed:\<close>
  followed by the text of \<open>err\<close>.
\<close>

theorem C1_enumeration_failure_is_tool_result:
  assumes "UnmarshalToolCallParams j (req_Params req) = Some params"
      and "call_Name params = ''enumerateSubdomains''"
      and "call_Arguments params ''domain'' = Some (JString domain)"
      and "domain \<noteq> []"
      and "fst (RunEnumeration p ctx domain (tool_config path (call_Arguments params))) = Inl err"
  shows "HandleToolsCall j p ctx req path =
           \<lparr> JSONRPC = ''2.0'', ID = req_ID req,
             Result = Some (ResultToolCall
               \<lparr> Content = [TextContent \<lparr> ci_Type = ''text'',
                    ci_Text = ''Subdomain enumeration failed: '' @ error_text err \<rparr>],
                 IsError = True \<rparr>),
             Error = None \<rparr>"
proof -
  obtain tr where run:
    "RunEnumeration p ctx domain (tool_config path (call_Arguments params)) = (Inl err, tr)"
    using assms(5) by (cases "RunEnumeration p ctx domain (tool_config path (call_Arguments params))") auto
  show ?thesis
    using assms(1-4) by (simp add: HandleToolsCall_def tool_result_def run)
qed

text \<open>
  The claim on the sample provider, whose library fails on \<open>down.example\<close>.
\<close>

theorem C1_enumeration_failure_is_tool_result_witness:
  "HandleToolsCall sample_codec sample_provider live_ctx
      \<lparr> req_JSONRPC = ''2.0'', req_ID = Some ''7'', req_Method = ''tools.call'',
        req_Params = params_down \<rparr> ''provider-config.yaml'' =
     \<lparr> JSONRPC = ''2.0'', ID = Some ''7'',
       Result = Some (ResultToolCall
         \<lparr> Content = [TextContent \<lparr> ci_Type = ''text'',
              ci_Text = ''Subdomain enumeration failed: enumeration error after 3 attempts: no sources available'' \<rparr>],
           IsError = True \<rparr>),
       Error = None \<rparr>"
proof -
  let ?params = "\<lparr> call_Name = ''enumerateSubdomains'',
      call_Arguments = [''domain'' \<mapsto> JString ''down.example''], call_Binary = [] \<rparr>"
  let ?req = "\<lparr> req_JSONRPC = ''2.0'', req_ID = Some ''7'', req_Method = ''tools.call'',
        req_Params = params_down \<rparr>"
  have h1: "UnmarshalToolCallParams sample_codec (req_Params ?req) = Some ?params"
    by (simp add: sample_codec_def)
  have h2: "call_Name ?params = ''enumerateSubdomains''" by simp
  have h3: "call_Arguments ?params ''domain'' = Some (JString ''down.example'')" by simp
  have h4: "''down.example'' \<noteq> []" by simp
  have h5: "fst (RunEnumeration sample_provider live_ctx ''down.example''
      (tool_config ''provider-config.yaml'' (call_Arguments ?params))) =
      Inl (Wrapped ''enumeration error after 3 attempts'' (LibraryError ''no sources available''))"
    by code_simp
  show ?thesis
    using C1_enumeration_failure_is_tool_result [OF h1 h2 h3 h4 h5] by simp
qed

text \<open>
  Claim C2 says that with a context that is already cancelled the orchestrator makes no
  further attempt. The code does not: the \<open>break\<close> at line 118 leaves the \<open>select\<close> only, so
  whenever the context is done at every poll and every attempt fails or comes back empty,
  the provider is called three times (without pauses) and the error returned is that of
  the third attempt, or the context's error when the third attempt returned none.
\<close>

theorem C2_cancelled_context_still_retries:
  assumes "NewRunner p (runner_options (default_timeout config)) = None"
      and "\<forall>k\<in>{1, 2, 3}. Done ctx k"
      and "\<forall>k\<in>{1, 2, 3}.
             snd (Enumerate p (runner_options (default_timeout config))
                    (primary_ctx ctx (default_timeout config)) domain k) \<noteq> None
             \<or> fmdom (fst (Enumerate p (runner_options (default_timeout config))
                    (primary_ctx ctx (default_timeout config)) domain k)) = {||}"
  shows "RunEnumeration p ctx domain config =
           (Inl (Wrapped ''enumeration error after 3 attempts''
                  (case snd (Enumerate p (runner_options (default_timeout config))
                               (primary_ctx ctx (default_timeout config)) domain 3) of
                     None \<Rightarrow> Err ctx
                   | Some e \<Rightarrow> e)),
            [EnumerateCall (primary_ctx ctx (default_timeout config))
               (runner_options (default_timeout config)) domain,
             EnumerateCall (primary_ctx ctx (default_timeout config))
               (runner_options (default_timeout config)) domain,
             EnumerateCall (primary_ctx ctx (default_timeout config))
               (runner_options (default_timeout config)) domain])"
proof -
  note loop = retry_loop_cancelled [OF assms(2) assms(3)]
  show ?thesis
    by (subst RunEnumeration_after_loop [OF assms(1) loop [folded primary_pass_def]])
      (simp add: string_of_nat_maxRetries)
qed

text \<open>
  The same on the sample provider, with a context cancelled before the first attempt and
  a domain for which the provider finds nothing: three calls, then the cancellation error.
\<close>

theorem C2_cancelled_context_still_retries_witness:
  "RunEnumeration sample_provider cancelled_ctx ''quiet.example'' flat_config =
     (Inl (Wrapped ''enumeration error after 3 attempts'' Canceled),
      [EnumerateCall Caller (runner_options flat_config) ''quiet.example'',
       EnumerateCall Caller (runner_options flat_config) ''quiet.example'',
       EnumerateCall Caller (runner_options flat_config) ''quiet.example''])"
proof -
  have cfg: "default_timeout flat_config = flat_config"
    by (simp add: default_timeout_def flat_config_def)
  have pc: "primary_ctx cancelled_ctx flat_config = Caller"
    by (simp add: primary_ctx_def cancelled_ctx_def)
  have h1: "NewRunner sample_provider (runner_options (default_timeout flat_config)) = None"
    by (simp add: sample_provider_def)
  have h2: "\<forall>k\<in>{1, 2, 3}. Done cancelled_ctx k"
    by (simp add: cancelled_ctx_def)
  have h3: "\<forall>k\<in>{1, 2, 3}.
      snd (Enumerate sample_provider (runner_options (default_timeout flat_config))
             (primary_ctx cancelled_ctx (default_timeout flat_config)) ''quiet.example'' k) \<noteq> None
      \<or> fmdom (fst (Enumerate sample_provider (runner_options (default_timeout flat_config))
             (primary_ctx cancelled_ctx (default_timeout flat_config)) ''quiet.example'' k)) = {||}"
    by (simp add: sample_provider_def)
  have last: "snd (Enumerate sample_provider (runner_options flat_config) Caller
      ''quiet.example'' 3) = None"
    by (simp add: sample_provider_def)
  have err: "Err cancelled_ctx = Canceled"
    by (simp add: cancelled_ctx_def)
  show ?thesis
    using C2_cancelled_context_still_retries [OF h1 h2 h3]
    by (simp add: cfg pc last err)
qed

text \<open>
  Claim C3, as amended. Whatever the provider returns, the list the orchestrator returns
  has no duplicates (as strings); it is sorted unless it is the list of suggestions; and
  when no recursive pass can run (\<open>recursive\<close> is off or \<open>maxDepth\<close> is at most 1), or the
  list is the list of suggestions, no entry is equal to the queried domain under
  \<open>EqualFold\<close>. For an entry found by the provider the last part holds whatever \<open>EqualFold\<close>
  is; for the suggestions it rests on the one property of \<open>strings.EqualFold\<close> stated
  above.
\<close>

theorem C3_result_list_distinct_sorted:
  assumes "fst (RunEnumeration p ctx domain config) = Inr res"
  shows "distinct res
         \<and> (res \<noteq> suggestions domain \<longrightarrow> sorted res)
         \<and> (\<not> (Recursive config \<and> MaxDepth config > 1) \<and> res \<noteq> suggestions domain \<longrightarrow>
              (\<forall>s\<in>set res. \<not> EqualFold p s domain))
         \<and> ((\<not> (Recursive config \<and> MaxDepth config > 1) \<or> res = suggestions domain)
              \<and> (\<forall>x d. x \<noteq> [] \<and> ascii_text x \<longrightarrow> \<not> EqualFold p (x @ d) d) \<longrightarrow>
              (\<forall>s\<in>set res. \<not> EqualFold p s domain))"
proof -
  have fallback: "\<forall>s\<in>set res. \<not> EqualFold p s domain"
    if "\<forall>x d. x \<noteq> [] \<and> ascii_text x \<longrightarrow> \<not> EqualFold p (x @ d) d"
      and "res = suggestions domain"
    using suggestions_not_the_domain [OF that(1)] that(2) by blast
  let ?cfg = "default_timeout config"
  have cfg: "Recursive ?cfg = Recursive config" "MaxDepth ?cfg = MaxDepth config"
    by (simp_all add: default_timeout_def)
  from assms have runner: "NewRunner p (runner_options ?cfg) = None"
    by (auto simp: RunEnumeration_def Let_def split: option.splits)
  obtain resultMap enumErr tr where
    loop: "primary_pass p ctx domain ?cfg = (resultMap, enumErr, tr)"
    by (cases "primary_pass p ctx domain ?cfg") auto
  note run = RunEnumeration_after_loop [OF runner loop]
  from assms run have ok: "enumErr = None"
    by (cases enumErr) auto
  let ?first = "first_pass p domain resultMap"
  show ?thesis
  proof (cases "Recursive config \<and> length ?first > 0 \<and> MaxDepth config > 1")
    case True
    let ?second = "fst (recursive_pass p ?cfg ?first)"
    from True assms have res: "res = (if length ?second = 0 then suggestions domain else ?second)"
      by (auto simp: run ok cfg Let_def split: prod.splits)
    have "distinct res" "res \<noteq> suggestions domain \<longrightarrow> sorted res"
      by (auto simp: res suggestions_distinct recursive_pass_distinct recursive_pass_sorted)
    with True fallback show ?thesis by blast
  next
    case False
    from False assms have res: "res = (if length ?first = 0 then suggestions domain else ?first)"
      by (auto simp: run ok cfg Let_def split: prod.splits)
    have "distinct ?first" "sorted ?first"
      by (simp_all add: first_pass_def sorted_list_of_fset_distinct sorted_list_of_fset_sorted)
    then have parts: "distinct res" "res \<noteq> suggestions domain \<longrightarrow> sorted res"
        "res \<noteq> suggestions domain \<longrightarrow> (\<forall>s\<in>set res. \<not> EqualFold p s domain)"
      by (auto simp: res suggestions_distinct dest: first_pass_sound)
    with fallback show ?thesis by blast
  qed
qed

text \<open>
  The amended claim on the sample provider, without recursion: on \<open>example.com\<close>, and on
  a domain for which the provider finds nothing, where the suggestions are returned.
\<close>

theorem C3_result_list_distinct_sorted_witness:
  "fst (RunEnumeration sample_provider live_ctx ''example.com'' flat_config)
     = Inr [''API.example.com'', ''api.example.com'', ''www.example.com'']
   \<and> distinct [''API.example.com'', ''api.example.com'', ''www.example.com'']
   \<and> sorted [''API.example.com'', ''api.example.com'', ''www.example.com'']
   \<and> \<not> EqualFold sample_provider ''API.example.com'' ''example.com''
   \<and> \<not> EqualFold sample_provider ''api.example.com'' ''example.com''
   \<and> \<not> EqualFold sample_provider ''www.example.com'' ''example.com''
   \<and> fst (RunEnumeration sample_provider live_ctx ''quiet.example'' flat_config)
     = Inr (suggestions ''quiet.example'')
   \<and> distinct (suggestions ''quiet.example'')
   \<and> \<not> EqualFold sample_provider ''www.quiet.example'' ''quiet.example''
   \<and> \<not> EqualFold sample_provider ''mail.quiet.example'' ''quiet.example''
   \<and> \<not> EqualFold sample_provider ''portal.quiet.example'' ''quiet.example''"
proof -
  have run: "fst (RunEnumeration sample_provider live_ctx ''example.com'' flat_config)
      = Inr [''API.example.com'', ''api.example.com'', ''www.example.com'']"
    by code_simp
  have ne: "[''API.example.com'', ''api.example.com'', ''www.example.com''] \<noteq> suggestions ''example.com''"
    by (simp add: suggestions_def commonPrefixes_def)
  have flat: "\<not> (Recursive flat_config \<and> MaxDepth flat_config > 1)"
    by (simp add: flat_config_def)
  have first: "distinct [''API.example.com'', ''api.example.com'', ''www.example.com'']
      \<and> sorted [''API.example.com'', ''api.example.com'', ''www.example.com'']
      \<and> \<not> EqualFold sample_provider ''API.example.com'' ''example.com''
      \<and> \<not> EqualFold sample_provider ''api.example.com'' ''example.com''
      \<and> \<not> EqualFold sample_provider ''www.example.com'' ''example.com''"
    using C3_result_list_distinct_sorted [OF run] ne flat by simp
  have quiet: "fst (RunEnumeration sample_provider live_ctx ''quiet.example'' flat_config)
      = Inr (suggestions ''quiet.example'')"
    by code_simp
  have fold: "\<forall>x d. x \<noteq> [] \<and> ascii_text x \<longrightarrow> \<not> EqualFold sample_provider (x @ d) d"
    using ascii_EqualFold_prefix by (simp add: sample_provider_def)
  from C3_result_list_distinct_sorted [OF quiet] flat fold
  have all: "distinct (suggestions ''quiet.example'')"
      "\<forall>s\<in>set (suggestions ''quiet.example''). \<not> EqualFold sample_provider s ''quiet.example''"
    by blast+
  from all(2) have second:
      "\<not> EqualFold sample_provider ''www.quiet.example'' ''quiet.example''"
      "\<not> EqualFold sample_provider ''mail.quiet.example'' ''quiet.example''"
      "\<not> EqualFold sample_provider ''portal.quiet.example'' ''quiet.example''"
    by (simp_all add: suggestions_def commonPrefixes_def)
  from run first quiet all(1) second show ?thesis
    by (intro conjI) (elim conjE, assumption)+
qed

text \<open>
  Claim C3 as stated fails in three ways: the list of suggestions is returned unsorted;
  two keys of the provider's map that differ in case only are both returned; and a
  recursive probe that reports the queried domain puts it into the result.
\<close>

theorem C3_result_list_counterexample:
  "fst (RunEnumeration sample_provider live_ctx ''quiet.example'' flat_config)
     = Inr (suggestions ''quiet.example'')
   \<and> \<not> sorted (suggestions ''quiet.example'')
   \<and> fst (RunEnumeration sample_provider live_ctx ''example.com'' flat_config)
     = Inr [''API.example.com'', ''api.example.com'', ''www.example.com'']
   \<and> EqualFold sample_provider ''API.example.com'' ''api.example.com''
   \<and> fst (RunEnumeration sample_provider live_ctx ''example.com'' deep_config)
     = Inr [''API.example.com'', ''api.example.com'', ''cdn.www.example.com'', ''example.com'',
            ''www.example.com'']"
  by code_simp

text \<open>
  Claim C4. When a runner is created, each of the three attempts returns an empty map
  and no error, and the context is not done at any poll, the orchestrator returns, without
  error, the ten suggestions \<open>www\<close>, \<open>mail\<close>, \<open>api\<close>, \<open>dev\<close>, \<open>blog\<close>, \<open>shop\<close>, \<open>app\<close>,
  \<open>support\<close>, \<open>help\<close>, \<open>portal\<close>, each followed by a dot and the queried domain, in this order.
\<close>

theorem C4_empty_results_give_suggestions:
  assumes "NewRunner p (runner_options (default_timeout config)) = None"
      and "\<forall>k\<in>{1, 2, 3}.
             Enumerate p (runner_options (default_timeout config))
               (primary_ctx ctx (default_timeout config)) domain k = (fmempty, None)"
      and "\<forall>k\<in>{1, 2, 3}. \<not> Done ctx k"
  shows "fst (RunEnumeration p ctx domain config) =
           Inr [''www.'' @ domain, ''mail.'' @ domain, ''api.'' @ domain, ''dev.'' @ domain,
                ''blog.'' @ domain, ''shop.'' @ domain, ''app.'' @ domain, ''support.'' @ domain,
                ''help.'' @ domain, ''portal.'' @ domain]"
proof -
  have loop: "primary_pass p ctx domain (default_timeout config) =
      (fmempty, None,
        [EnumerateCall (primary_ctx ctx (default_timeout config)) (runner_options (default_timeout config)) domain,
         Sleep 2,
         EnumerateCall (primary_ctx ctx (default_timeout config)) (runner_options (default_timeout config)) domain,
         Sleep 2,
         EnumerateCall (primary_ctx ctx (default_timeout config)) (runner_options (default_timeout config)) domain])"
    unfolding primary_pass_def by (rule retry_loop_empty [OF assms(2) assms(3)])
  show ?thesis
    by (subst RunEnumeration_after_loop [OF assms(1) loop])
      (simp add: first_pass_empty suggestions_def commonPrefixes_def)
qed

text \<open>
  The claim on the sample provider and a domain for which it finds nothing.
\<close>

theorem C4_empty_results_give_suggestions_witness:
  "fst (RunEnumeration sample_provider live_ctx ''quiet.example'' flat_config) =
     Inr [''www.quiet.example'', ''mail.quiet.example'', ''api.quiet.example'',
          ''dev.quiet.example'', ''blog.quiet.example'', ''shop.quiet.example'',
          ''app.quiet.example'', ''support.quiet.example'', ''help.quiet.example'',
          ''portal.quiet.example'']"
proof -
  have h1: "NewRunner sample_provider (runner_options (default_timeout flat_config)) = None"
    by (simp add: sample_provider_def)
  have h2: "\<forall>k\<in>{1, 2, 3}.
      Enumerate sample_provider (runner_options (default_timeout flat_config))
        (primary_ctx live_ctx (default_timeout flat_config)) ''quiet.example'' k = (fmempty, None)"
    by (simp add: sample_provider_def)
  have h3: "\<forall>k\<in>{1, 2, 3}. \<not> Done live_ctx k"
    by (simp add: live_ctx_def)
  show ?thesis
    using C4_empty_results_give_suggestions [OF h1 h2 h3] by simp
qed

text \<open>
  Claim C5, as amended. A request without id handled inside a batch leaves no entry in the
  response array exactly when handling it yields no RPC error, which is the case whenever
  its method is neither \<open>initialize\<close> nor \<open>tools.call\<close>; when handling it yields an RPC
  error, the array holds that error response, without id. A request without id for one
  of the three methods that arrives alone is answered like any single request, with an
  envelope without id.
\<close>

theorem C5_notification_in_batch:
  assumes "req_ID req = None"
  shows "ID (ProcessSingleRequest j p ctx req path) = None
    \<and> batch_loop j p ctx path (before @ req # after) =
         batch_loop j p ctx path before
         @ (if Error (ProcessSingleRequest j p ctx req path) = None then []
            else [ProcessSingleRequest j p ctx req path])
         @ batch_loop j p ctx path after
    \<and> (req_Method req \<noteq> ''initialize'' \<and> req_Method req \<noteq> ''tools.call'' \<longrightarrow>
          Error (ProcessSingleRequest j p ctx req path) = None)
    \<and> (length body > 0 \<and> hd body = CHR ''[''
          \<and> UnmarshalBatch j body = Some (before @ req # after) \<longrightarrow>
        mcpHandler j p rctx path ''POST'' ''application/json'' (Some body) =
          WriteResponse 200 (Batch
            (batch_loop j p (rctx\<lparr>HasDeadline := True\<rparr>) path before
             @ (if Error (ProcessSingleRequest j p (rctx\<lparr>HasDeadline := True\<rparr>) req path) = None
                then [] else [ProcessSingleRequest j p (rctx\<lparr>HasDeadline := True\<rparr>) req path])
             @ batch_loop j p (rctx\<lparr>HasDeadline := True\<rparr>) path after)))
    \<and> (\<not> (length body > 0 \<and> hd body = CHR ''['') \<and> UnmarshalRequest j body = Some req
          \<and> req_Method req \<in> {''initialize'', ''tools.list'', ''tools.call''} \<longrightarrow>
        mcpHandler j p rctx path ''POST'' ''application/json'' (Some body) =
          WriteResponse 200
            (Single (ProcessSingleRequest j p (rctx\<lparr>HasDeadline := True\<rparr>) req path)))"
proof -
  have id: "ID (ProcessSingleRequest j p c req path) = None" for c
    using assms by (simp add: ProcessSingleRequest_ID)
  have split: "batch_loop j p c path (before @ req # after) =
         batch_loop j p c path before
         @ (if Error (ProcessSingleRequest j p c req path) = None then []
            else [ProcessSingleRequest j p c req path])
         @ batch_loop j p c path after" for c
    using id [of c] by (simp add: batch_loop_append Let_def)
  have quiet: "req_Method req \<noteq> ''initialize'' \<and> req_Method req \<noteq> ''tools.call'' \<longrightarrow>
          Error (ProcessSingleRequest j p ctx req path) = None"
    using assms by (simp add: notification_no_error)
  have batch: "length body > 0 \<and> hd body = CHR ''[''
          \<and> UnmarshalBatch j body = Some (before @ req # after) \<longrightarrow>
        mcpHandler j p rctx path ''POST'' ''application/json'' (Some body) =
          WriteResponse 200 (Batch
            (batch_loop j p (rctx\<lparr>HasDeadline := True\<rparr>) path before
             @ (if Error (ProcessSingleRequest j p (rctx\<lparr>HasDeadline := True\<rparr>) req path) = None
                then [] else [ProcessSingleRequest j p (rctx\<lparr>HasDeadline := True\<rparr>) req path])
             @ batch_loop j p (rctx\<lparr>HasDeadline := True\<rparr>) path after))"
    by (simp add: mcpHandler_post split [symmetric])
  have single: "\<not> (length body > 0 \<and> hd body = CHR ''['') \<and> UnmarshalRequest j body = Some req
          \<and> req_Method req \<in> {''initialize'', ''tools.list'', ''tools.call''} \<longrightarrow>
        mcpHandler j p rctx path ''POST'' ''application/json'' (Some body) =
          WriteResponse 200
            (Single (ProcessSingleRequest j p (rctx\<lparr>HasDeadline := True\<rparr>) req path))"
    by (auto simp: mcpHandler_post)
  from id [of ctx] split [of ctx] quiet batch single show ?thesis
    by (intro conjI)
qed

text \<open>
  The amended claim on a batch of three: an \<open>initialize\<close> notification with an
  unsupported version, a \<open>ping\<close> notification and a \<open>tools.list\<close> request with id 1. The
  \<open>ping\<close> leaves no entry.
\<close>

theorem C5_notification_in_batch_witness:
  "mcpHandler sample_codec sample_provider live_ctx ''provider-config.yaml''
      ''POST'' ''application/json'' (Some body_batch) =
     WriteResponse 200 (Batch
       [\<lparr> JSONRPC = ''2.0'', ID = None, Result = None,
          Error = Some \<lparr> Code = - 32602,
            Message = ''Unsupported protocol version: 0.2. Server supports: 0.3'',
            Data = None \<rparr> \<rparr>,
        \<lparr> JSONRPC = ''2.0'', ID = Some ''1'',
          Result = Some (ResultToolsList [subdomainTool]), Error = None \<rparr>])"
proof -
  let ?init = "\<lparr> req_JSONRPC = ''2.0'', req_ID = None, req_Method = ''initialize'',
      req_Params = params_v02 \<rparr>"
  let ?ping = "\<lparr> req_JSONRPC = ''2.0'', req_ID = None, req_Method = ''ping'', req_Params = [] \<rparr>"
  let ?list = "\<lparr> req_JSONRPC = ''2.0'', req_ID = Some ''1'', req_Method = ''tools.list'',
      req_Params = [] \<rparr>"
  let ?ctx = "live_ctx\<lparr>HasDeadline := True\<rparr>"
  have h: "req_ID ?ping = None" by simp
  have shape: "length body_batch > 0 \<and> hd body_batch = CHR ''[''"
    by (simp add: body_batch_def)
  have parse: "UnmarshalBatch sample_codec body_batch = Some ([?init] @ ?ping # [?list])"
    by (simp add: sample_codec_def)
  have ne: "params_v02 \<noteq> params_v03"
    by (simp add: params_v02_def params_v03_def)
  have first: "batch_loop sample_codec sample_provider ?ctx ''provider-config.yaml'' [?init] =
      [\<lparr> JSONRPC = ''2.0'', ID = None, Result = None,
          Error = Some \<lparr> Code = - 32602,
            Message = ''Unsupported protocol version: 0.2. Server supports: 0.3'',
            Data = None \<rparr> \<rparr>]"
    using ne
    by (simp add: ProcessSingleRequest_def HandleInitialize_def sample_codec_def
        SupportedProtocolVersion_def InvalidParamsCode_def)
  have last: "batch_loop sample_codec sample_provider ?ctx ''provider-config.yaml'' [?list] =
      [\<lparr> JSONRPC = ''2.0'', ID = Some ''1'',
          Result = Some (ResultToolsList [subdomainTool]), Error = None \<rparr>]"
    by (simp add: ProcessSingleRequest_def HandleToolsList_def)
  note c = C5_notification_in_batch [OF h, where j = sample_codec and p = sample_provider and ctx = ?ctx
      and rctx = live_ctx and path = "''provider-config.yaml''" and body = body_batch
      and before = "[?init]" and after = "[?list]"]
  from c have quiet: "req_Method ?ping \<noteq> ''initialize'' \<and> req_Method ?ping \<noteq> ''tools.call'' \<longrightarrow>
      Error (ProcessSingleRequest sample_codec sample_provider ?ctx ?ping ''provider-config.yaml'') = None"
    by (elim conjE)
  then have none: "Error (ProcessSingleRequest sample_codec sample_provider ?ctx ?ping
      ''provider-config.yaml'') = None"
    by simp
  from c have "length body_batch > 0 \<and> hd body_batch = CHR ''[''
          \<and> UnmarshalBatch sample_codec body_batch = Some ([?init] @ ?ping # [?list]) \<longrightarrow>
        mcpHandler sample_codec sample_provider live_ctx ''provider-config.yaml'' ''POST''
          ''application/json'' (Some body_batch) =
          WriteResponse 200 (Batch
            (batch_loop sample_codec sample_provider ?ctx ''provider-config.yaml'' [?init]
             @ (if Error (ProcessSingleRequest sample_codec sample_provider ?ctx ?ping
                     ''provider-config.yaml'') = None
                then [] else [ProcessSingleRequest sample_codec sample_provider ?ctx ?ping
                     ''provider-config.yaml''])
             @ batch_loop sample_codec sample_provider ?ctx ''provider-config.yaml'' [?list]))"
    by (elim conjE)
  with shape parse show ?thesis
    by (simp only: first last none if_True append_Nil append_Cons simp_thms)
qed

text \<open>
  Claim C5 as stated fails: a \<open>tools.list\<close> notification that arrives alone is answered
  with a full response, and in the batch above the \<open>initialize\<close> notification has an
  entry in the response array.
\<close>

theorem C5_notification_counterexample:
  "mcpHandler sample_codec sample_provider live_ctx ''provider-config.yaml''
      ''POST'' ''application/json'' (Some body_list_notification) =
     WriteResponse 200 (Single
       \<lparr> JSONRPC = ''2.0'', ID = None,
         Result = Some (ResultToolsList [subdomainTool]), Error = None \<rparr>)
   \<and> mcpHandler sample_codec sample_provider live_ctx ''provider-config.yaml''
      ''POST'' ''application/json'' (Some body_batch) =
     WriteResponse 200 (Batch
       [\<lparr> JSONRPC = ''2.0'', ID = None, Result = None,
          Error = Some \<lparr> Code = - 32602,
            Message = ''Unsupported protocol version: 0.2. Server supports: 0.3'',
            Data = None \<rparr> \<rparr>,
        \<lparr> JSONRPC = ''2.0'', ID = Some ''1'',
          Result = Some (ResultToolsList [subdomainTool]), Error = None \<rparr>])"
  by code_simp

text \<open>
  Claim C6, as amended. The handler treats a payload as a batch exactly when its first
  byte is an opening bracket (white space before it is not skipped), and as a single
  request otherwise.
\<close>

theorem C6_batch_iff_first_byte_bracket:
  "mcpHandler j p rctx path ''POST'' ''application/json'' (Some body) =
     (if body \<noteq> [] \<and> hd body = CHR ''[''
      then WriteResponse 200
             (Batch (case UnmarshalBatch j body of
                       None \<Rightarrow> [\<lparr> JSONRPC = ''2.0'', ID = None, Result = None, Error = Some ErrParse \<rparr>]
                     | Some batchRequest \<Rightarrow>
                         batch_loop j p (rctx\<lparr>HasDeadline := True\<rparr>) path batchRequest))
      else WriteResponse 200
             (Single (case UnmarshalRequest j body of
                        None \<Rightarrow> \<lparr> JSONRPC = ''2.0'', ID = None, Result = None, Error = Some ErrParse \<rparr>
                      | Some singleRequest \<Rightarrow>
                          ProcessSingleRequest j p (rctx\<lparr>HasDeadline := True\<rparr>) singleRequest path)))"
  by (simp add: mcpHandler_post)

text \<open>
  The amended claim on a payload that starts with a brace.
\<close>

theorem C6_batch_iff_first_byte_bracket_witness:
  "mcpHandler sample_codec sample_provider live_ctx ''provider-config.yaml''
      ''POST'' ''application/json'' (Some body_list_notification) =
     WriteResponse 200 (Single
       \<lparr> JSONRPC = ''2.0'', ID = None,
         Result = Some (ResultToolsList [subdomainTool]), Error = None \<rparr>)"
proof -
  have shape: "\<not> (body_list_notification \<noteq> [] \<and> hd body_list_notification = CHR ''['')"
    by (simp add: body_list_notification_def)
  have parse: "UnmarshalRequest sample_codec body_list_notification =
      Some \<lparr> req_JSONRPC = ''2.0'', req_ID = None, req_Method = ''tools.list'', req_Params = [] \<rparr>"
    by (simp add: sample_codec_def)
  show ?thesis
    using shape
    by (simp add: C6_batch_iff_first_byte_bracket [of sample_codec sample_provider live_ctx "''provider-config.yaml''"
          body_list_notification] parse ProcessSingleRequest_def HandleToolsList_def)
qed

text \<open>
  Claim C6 as stated fails on a batch with a space in front: its first byte that is not
  white space is a bracket, and the handler decodes it as a single request.
\<close>

theorem C6_leading_space_counterexample:
  "first_non_space_is_bracket body_spaced_batch
   \<and> mcpHandler sample_codec sample_provider live_ctx ''provider-config.yaml''
      ''POST'' ''application/json'' (Some body_spaced_batch) =
     WriteResponse 200 (Single
       \<lparr> JSONRPC = ''2.0'', ID = None, Result = None, Error = Some ErrParse \<rparr>)"
  by code_simp

text \<open>
  Claim C7. When the first pass succeeds and a recursive pass runs on a non-empty
  frontier, the provider calls of that pass are either none (no recursive runner could be
  created) or one for each of the first ten frontier entries, in order; every frontier
  entry is in the final result, and an entry beyond the tenth is never queried.
\<close>

theorem C7_frontier_cap:
  assumes "NewRunner p (runner_options (default_timeout config)) = None"
      and "primary_pass p ctx domain (default_timeout config) = (resultMap, None, tr)"
      and "Recursive config" and "MaxDepth config > 1"
      and "first_pass p domain resultMap = frontier" and "frontier \<noteq> []"
  shows "\<exists>res probes.
           RunEnumeration p ctx domain config = (Inr res, tr @ probes)
           \<and> (probes = [] \<or>
                probes = map (probe_event (recursive_options (default_timeout config))
                                (recursive_timeout (default_timeout config)))
                           (enumerate 0 (take 10 frontier)))
           \<and> length probes \<le> 10
           \<and> set frontier \<subseteq> set res
           \<and> (\<forall>s\<in>set (drop 10 frontier).
                 s \<in> set res \<and> (\<forall>c opts. EnumerateCall c opts s \<notin> set probes))"
proof -
  let ?cfg = "default_timeout config"
  let ?res = "fst (recursive_pass p ?cfg frontier)"
  let ?probes = "snd (recursive_pass p ?cfg frontier)"
  have rec: "Recursive ?cfg" "MaxDepth ?cfg > 1"
    using assms(3,4) by (simp_all add: default_timeout_def)
  have keeps: "set frontier \<subseteq> set ?res"
    by (rule recursive_pass_keeps)
  then have nonempty: "?res \<noteq> []"
    using assms(6) by (cases frontier) auto
  have run: "RunEnumeration p ctx domain config = (Inr ?res, tr @ ?probes)"
    using rec assms(5,6) nonempty
    by (subst RunEnumeration_after_loop [OF assms(1) assms(2)])
      (auto simp: Let_def split: prod.splits)
  have shape: "?probes = [] \<or>
      ?probes = map (probe_event (recursive_options ?cfg) (recursive_timeout ?cfg))
                  (enumerate 0 (take 10 frontier))"
    by (simp add: recursive_pass_trace maxSubdomainsToProcess_def split: option.splits)
  then have len: "length ?probes \<le> 10"
    by auto
  have dist: "distinct frontier"
    using assms(5) by (auto simp: first_pass_def sorted_list_of_fset_distinct)
  have tail: "EnumerateCall c opts s \<notin> set ?probes" if "s \<in> set (drop 10 frontier)" for s c opts
  proof
    assume "EnumerateCall c opts s \<in> set ?probes"
    with shape have "EnumerateCall c opts s \<in>
        set (map (probe_event (recursive_options ?cfg) (recursive_timeout ?cfg))
               (enumerate 0 (take 10 frontier)))"
      by auto
    from probe_event_cases [OF this] have "s \<in> set (take 10 frontier)"
      by auto
    moreover have "set (take 10 frontier) \<inter> set (drop 10 frontier) = {}"
      using dist by (metis append_take_drop_id distinct_append)
    ultimately show False using that by auto
  qed
  have "\<forall>s\<in>set (drop 10 frontier). s \<in> set ?res \<and> (\<forall>c opts. EnumerateCall c opts s \<notin> set ?probes)"
    using keeps tail by (meson in_set_dropD subsetD)
  with run shape len keeps show ?thesis by blast
qed

text \<open>
  The claim on the sample provider and a domain with twelve hosts.
\<close>

theorem C7_frontier_cap_witness:
  "\<exists>res probes.
     RunEnumeration sample_provider live_ctx ''big.example'' deep_config =
       (Inr res, [EnumerateCall Caller (runner_options deep_config) ''big.example''] @ probes)
     \<and> length probes \<le> 10
     \<and> ''h11.big.example'' \<in> set res
     \<and> ''h12.big.example'' \<in> set res
     \<and> EnumerateCall (recursive_ctx 30 9) (recursive_options deep_config) ''h11.big.example''
          \<notin> set probes"
proof -
  let ?frontier = "[''h01.big.example'', ''h02.big.example'', ''h03.big.example'',
      ''h04.big.example'', ''h05.big.example'', ''h06.big.example'', ''h07.big.example'',
      ''h08.big.example'', ''h09.big.example'', ''h10.big.example'', ''h11.big.example'',
      ''h12.big.example'']"
  have cfg: "default_timeout deep_config = deep_config"
    by (simp add: default_timeout_def deep_config_def flat_config_def)
  have h1: "NewRunner sample_provider (runner_options (default_timeout deep_config)) = None"
    by (simp add: sample_provider_def)
  have e: "Enumerate sample_provider (runner_options deep_config) Caller ''big.example'' 1
      = (big_hosts, None)"
    by (simp add: sample_provider_def)
  have pc: "primary_ctx live_ctx deep_config = Caller"
    by (simp add: primary_ctx_def live_ctx_def)
  have nonempty: "fmdom big_hosts \<noteq> {||}"
    by (simp add: big_hosts_def)
  have h2: "primary_pass sample_provider live_ctx ''big.example'' (default_timeout deep_config) =
      (big_hosts, None, [EnumerateCall Caller (runner_options deep_config) ''big.example''])"
    unfolding cfg primary_pass_def pc
    using nonempty
    by (subst retry_loop_step [OF _ e]) (simp_all add: maxRetries_def)
  have h3: "Recursive deep_config" and h4: "MaxDepth deep_config > 1"
    by (simp_all add: deep_config_def flat_config_def)
  have h5: "first_pass sample_provider ''big.example'' big_hosts = ?frontier"
    by code_simp
  have h6: "?frontier \<noteq> []" by simp
  from C7_frontier_cap [OF h1 h2 h3 h4 h5 h6] obtain res probes where
    r: "RunEnumeration sample_provider live_ctx ''big.example'' deep_config =
         (Inr res, [EnumerateCall Caller (runner_options deep_config) ''big.example''] @ probes)"
      "length probes \<le> 10" "set ?frontier \<subseteq> set res"
      "\<forall>s\<in>set (drop 10 ?frontier). s \<in> set res \<and> (\<forall>c opts. EnumerateCall c opts s \<notin> set probes)"
    by blast
  from r(4) have "EnumerateCall (recursive_ctx 30 9) (recursive_options deep_config)
      ''h11.big.example'' \<notin> set probes"
    by simp
  with r(1-3) show ?thesis by auto
qed

text \<open>
  Claim C8, as amended. The context of every recursive probe is derived from the
  background context, not from the caller's context, with its own deadline. Cancelling
  the caller's context or the context of the first pass does not cancel a probe, and a
  probe's deadline passing cancels neither of them nor the context of another probe.
\<close>

theorem C8_probe_context_detached:
  assumes "EnumerateCall c opts s \<in> set (snd (recursive_pass p config frontier))"
  shows "\<exists>i<10.
           c = WithTimeout Background (Seconds (recursive_timeout config)) (Suc i)
           \<and> s \<in> set (take 10 frontier)
           \<and> ancestors c = [Background]
           \<and> \<not> cancels Caller c
           \<and> \<not> cancels (primary_ctx ctx config) c
           \<and> \<not> cancels c Caller
           \<and> \<not> cancels c (primary_ctx ctx config)
           \<and> (\<forall>j. j \<noteq> i \<longrightarrow>
                 \<not> cancels c (WithTimeout Background (Seconds (recursive_timeout config)) (Suc j)))"
proof -
  from assms have "EnumerateCall c opts s \<in>
      set (map (probe_event (recursive_options config) (recursive_timeout config))
             (enumerate 0 (take maxSubdomainsToProcess frontier)))"
    by (auto simp: recursive_pass_trace split: option.splits)
  from probe_event_cases [OF this] obtain i where
    i: "c = recursive_ctx (recursive_timeout config) i" "i < length (take 10 frontier)"
      "s \<in> set (take 10 frontier)"
    by (auto simp: maxSubdomainsToProcess_def)
  then have "i < 10" by simp
  then show ?thesis
    using i(1,3) by (auto simp: recursive_ctx_def cancels_def primary_ctx_def)
qed

text \<open>
  The amended claim on the first probe of a recursive pass of the sample provider.
\<close>

theorem C8_probe_context_detached_witness:
  "EnumerateCall (WithTimeout Background 30000000000 1) (recursive_options deep_config) ''API.example.com''
     \<in> set (snd (recursive_pass sample_provider deep_config
          [''API.example.com'', ''api.example.com'', ''www.example.com'']))
   \<and> (\<exists>i<10. WithTimeout Background 30000000000 1
           = WithTimeout Background (Seconds (recursive_timeout deep_config)) (Suc i)
         \<and> \<not> cancels Caller (WithTimeout Background 30000000000 1))"
proof -
  have h: "EnumerateCall (WithTimeout Background 30000000000 1) (recursive_options deep_config)
      ''API.example.com''
     \<in> set (snd (recursive_pass sample_provider deep_config
          [''API.example.com'', ''api.example.com'', ''www.example.com'']))"
    by code_simp
  from C8_probe_context_detached [OF h, of live_ctx] show ?thesis
    using h by blast
qed

text \<open>
  Claim C8 as stated fails: in a recursive enumeration of \<open>example.com\<close> the second call
  of the provider, the first probe, runs in a context whose only ancestor is the background
  context, so that cancelling the caller's context does not cancel it.
\<close>

theorem C8_probe_context_counterexample:
  "snd (RunEnumeration sample_provider live_ctx ''example.com'' deep_config) ! 1
     = EnumerateCall (WithTimeout Background 30000000000 1) (recursive_options deep_config)
         ''API.example.com''
   \<and> ancestors (WithTimeout Background 30000000000 1) = [Background]
   \<and> \<not> cancels Caller (WithTimeout Background 30000000000 1)"
  by code_simp



text \<open>
  Claim C10. When \<open>jsoniter.Unmarshal\<close> cannot decode the parameters of an \<open>initialize\<close>
  or a \<open>tools.call\<close> request, the handler answers with the request's id and the Parse
  error, whose code is -32700 and is neither that of Invalid params nor that of Invalid
  Request.
\<close>

theorem C10_undecodable_params_parse_error:
  "(UnmarshalInitializeParams j (req_Params req) = None \<longrightarrow>
      HandleInitialize j req =
        \<lparr> JSONRPC = ''2.0'', ID = req_ID req, Result = None, Error = Some ErrParse \<rparr>)
   \<and> (UnmarshalToolCallParams j (req_Params req) = None \<longrightarrow>
      HandleToolsCall j p ctx req path =
        \<lparr> JSONRPC = ''2.0'', ID = req_ID req, Result = None, Error = Some ErrParse \<rparr>)
   \<and> Code ErrParse = - 32700
   \<and> Code ErrParse \<noteq> InvalidParamsCode
   \<and> Code ErrParse \<noteq> InvalidRequestCode"
  by (simp add: HandleInitialize_def HandleToolsCall_def ErrParse_def ParseErrorCode_def
      InvalidParamsCode_def InvalidRequestCode_def)

text \<open>
  The claim on the sample decoder: a JSON string as parameters of \<open>initialize\<close>, a JSON
  array as parameters of \<open>tools.call\<close>.
\<close>

theorem C10_undecodable_params_parse_error_witness:
  "HandleInitialize sample_codec
      \<lparr> req_JSONRPC = ''2.0'', req_ID = Some ''1'', req_Method = ''initialize'',
        req_Params = params_string \<rparr> =
     \<lparr> JSONRPC = ''2.0'', ID = Some ''1'', Result = None, Error = Some ErrParse \<rparr>
   \<and> HandleToolsCall sample_codec sample_provider live_ctx
      \<lparr> req_JSONRPC = ''2.0'', req_ID = Some ''1'', req_Method = ''tools.call'',
        req_Params = params_array \<rparr> ''provider-config.yaml'' =
     \<lparr> JSONRPC = ''2.0'', ID = Some ''1'', Result = None, Error = Some ErrParse \<rparr>"
proof -
  have h1: "UnmarshalInitializeParams sample_codec params_string = None"
    by (simp add: sample_codec_def params_string_def params_v03_def params_v02_def)
  have h2: "UnmarshalToolCallParams sample_codec params_array = None"
    by (simp add: sample_codec_def params_array_def params_down_def params_timeout0_def
        params_plain_def)
  show ?thesis
    using h1 h2
      C10_undecodable_params_parse_error [of sample_codec "\<lparr> req_JSONRPC = ''2.0'', req_ID = Some ''1'',
        req_Method = ''initialize'', req_Params = params_string \<rparr>"]
      C10_undecodable_params_parse_error [of sample_codec "\<lparr> req_JSONRPC = ''2.0'', req_ID = Some ''1'',
        req_Method = ''tools.call'', req_Params = params_array \<rparr>" sample_provider live_ctx
        "''provider-config.yaml''"]
    by simp
qed

end
